theory Spec2Isabelle
  imports Main "HOL-Library.Sublist"
begin

section \<open>Strings\<close>

text \<open>
  Go strings are modelled as \<open>string\<close> (a list of bytes). The functions of package
  \<open>strings\<close> that the sources call are written out on ASCII: \<open>ToUpper\<close> and
  \<open>ToLower\<close> change the letters a-z and A-Z only (clearing or setting bit 5 of the byte,
  which is what subtracting or adding 32 does on these ranges).
\<close>

definition toUpperChar :: "char \<Rightarrow> char" where
  "toUpperChar c =
     (if 97 \<le> (of_char c :: nat) \<and> (of_char c :: nat) \<le> 122
      then (case c of Char b0 b1 b2 b3 b4 b5 b6 b7 \<Rightarrow> Char b0 b1 b2 b3 b4 False b6 b7)
      else c)"

definition toLowerChar :: "char \<Rightarrow> char" where
  "toLowerChar c =
     (if 65 \<le> (of_char c :: nat) \<and> (of_char c :: nat) \<le> 90
      then (case c of Char b0 b1 b2 b3 b4 b5 b6 b7 \<Rightarrow> Char b0 b1 b2 b3 b4 True b6 b7)
      else c)"

definition ToUpper :: "string \<Rightarrow> string" where
  "ToUpper s = map toUpperChar s"

definition ToLower :: "string \<Rightarrow> string" where
  "ToLower s = map toLowerChar s"

definition HasPrefix :: "string \<Rightarrow> string \<Rightarrow> bool" where
  "HasPrefix s p = prefix p s"

definition TrimPrefix :: "string \<Rightarrow> string \<Rightarrow> string" where
  "TrimPrefix s p = (if HasPrefix s p then drop (length p) s else s)"

text \<open>\<open>strings.Split s sep\<close> for a one-byte separator: n separators give n + 1 fields.\<close>

fun Split :: "string \<Rightarrow> char \<Rightarrow> string list" where
  "Split [] sep = [[]]"
| "Split (c # cs) sep =
     (if c = sep then [] # Split cs sep
      else (case Split cs sep of [] \<Rightarrow> [[c]] | w # ws \<Rightarrow> (c # w) # ws))"

text \<open>\<open>strings.SplitN s sep 2\<close> for a one-byte separator: the string is cut at the first
  separator only.\<close>

definition SplitN2 :: "string \<Rightarrow> char \<Rightarrow> string list" where
  "SplitN2 s sep =
     (if sep \<in> set s
      then [takeWhile (\<lambda>c. c \<noteq> sep) s, drop 1 (dropWhile (\<lambda>c. c \<noteq> sep) s)]
      else [s])"


section \<open>streaming.go: terminal resizing\<close>

text \<open>
  \<open>remotecommand.TerminalSize\<close> is declared outside the sources at hand; its two
  dimensions are only ever compared with 1, so they are taken as integers, which covers
  every Go integer type.
\<close>

record TerminalSize =
  Width :: int
  Height :: int

text \<open>
  What one receive \<open>size, ok := <-resize\<close> of the draining loop observes: a value
  (\<open>ok\<close> true) or the closed channel (\<open>ok\<close> false). A channel is modelled by the sequence
  of what the successive receives observe; when the sequence is used up and the channel
  was not closed, the next receive blocks.
\<close>

datatype recv = Recv TerminalSize | ChanClosed

text \<open>
  The state of the goroutine: the sizes \<open>resizeFunc\<close> has been called with, in call order,
  and whether the goroutine has returned.
\<close>

record resizeTask =
  resized :: "TerminalSize list"
  returned :: bool

text \<open>The \<open>for\<close> loop of the goroutine, run over the receives of the channel.\<close>

fun drain :: "recv list \<Rightarrow> resizeTask \<Rightarrow> resizeTask" where
  "drain [] t = t"
| "drain (ChanClosed # rs) t = t\<lparr>returned := True\<rparr>"
| "drain (Recv sz # rs) t =
     (if Height sz < 1 \<or> Width sz < 1 then drain rs t
      else drain rs (t\<lparr>resized := resized t @ [sz]\<rparr>))"

text \<open>
  \<open>handleResizing\<close>: the channel argument may be nil (\<open>None\<close>). The result is the
  goroutine that was spawned, if any.
\<close>

definition handleResizing :: "recv list option \<Rightarrow> resizeTask option" where
  "handleResizing resize =
     (case resize of
        None \<Rightarrow> None
      | Some rs \<Rightarrow> Some (drain rs \<lparr>resized = [], returned = False\<rparr>))"

text \<open>The sizes a channel delivers before it is closed.\<close>

fun delivered :: "recv list \<Rightarrow> TerminalSize list" where
  "delivered [] = []"
| "delivered (ChanClosed # rs) = []"
| "delivered (Recv sz # rs) = sz # delivered rs"


section \<open>container\_create.go: errors\<close>

text \<open>
  The Go code builds its errors with \<open>fmt.Errorf\<close>; each place that creates or wraps an
  error is a constructor here, named after the failure it reports. Errors that come
  from the operating system or from a library are carried as text.
\<close>

type_synonym oserr = string

datatype error =
    NoCommandSpecified
  | InvalidEnvironmentVariable string
  | InvalidPrivilegedConfig
  | InvalidMountPropagation string string string
  | UnsupportedSeccompProfile
  | InvalidProfileName string
  | GenerateSpecFailed oserr
  | InitSelinuxFailed oserr
  | StatFailed string oserr
  | MkdirFailed string oserr
  | ResolveSymlinkFailed oserr
  | LookupMountFailed oserr
  | RelabelFailed string string oserr
  | DeviceFailed oserr
  | InvalidCapability string
  | FailedToSetOCIBindMounts error
  | FailedToSetDevicesMapping error
  | FailedToSetCapabilities error


section \<open>container\_create.go: seccomp\<close>

definition profileNamePrefix :: string where
  "profileNamePrefix = ''localhost/''"

definition runtimeDefault :: string where
  "runtimeDefault = ''runtime/default''"

definition dockerDefault :: string where
  "dockerDefault = ''docker/default''"

definition unconfinedProfile :: string where
  "unconfinedProfile = ''unconfined''"

definition seccompDefaultProfile :: string where
  "seccompDefaultProfile = dockerDefault"

datatype SpecOpts = SeccompWithDefaultProfile | SeccompWithProfile string

definition generateSeccompSpecOpts :: "string \<Rightarrow> bool \<Rightarrow> bool \<Rightarrow> error + SpecOpts option" where
  "generateSeccompSpecOpts seccompProf0 privileged seccompEnabled =
     (if privileged then Inr None
      else
        let seccompProf =
              (if seccompProf0 = runtimeDefault \<or> seccompProf0 = dockerDefault
               then seccompDefaultProfile else seccompProf0)
        in if \<not> seccompEnabled
           then (if seccompProf \<noteq> '''' \<and> seccompProf \<noteq> unconfinedProfile
                 then Inl UnsupportedSeccompProfile else Inr None)
           else if seccompProf = '''' \<or> seccompProf = unconfinedProfile then Inr None
           else if seccompProf = dockerDefault then Inr (Some SeccompWithDefaultProfile)
           else if \<not> HasPrefix seccompProf profileNamePrefix
                then Inl (InvalidProfileName seccompProf)
           else Inr (Some (SeccompWithProfile (TrimPrefix seccompProf profileNamePrefix))))"


section \<open>container\_create.go: data\<close>

text \<open>
  The request types of the CRI API (\<open>runtime.ContainerConfig\<close> and its parts), the image
  configuration and the OCI runtime specification are declared outside the sources at
  hand. They are records with the fields the code reads and writes. The nil-safe getters
  of the API (\<open>GetLinux().GetSecurityContext()\<close> and so on) return zero values for
  absent parts, so a part that is only read through getters is a plain record.

  A Go slice that the code tests against nil is an option (\<open>None\<close> is the nil slice,
  \<open>Some []\<close> the empty slice that is not nil); a slice of which only the length and the
  elements are read is a list.
\<close>

text \<open>
  The propagation of a mount is an enumeration over \<open>int32\<close>; \<open>PROPAGATION_OTHER\<close> stands
  for every value that is none of the three named ones.
\<close>

datatype MountPropagation =
    PROPAGATION_PRIVATE
  | PROPAGATION_HOST_TO_CONTAINER
  | PROPAGATION_BIDIRECTIONAL
  | PROPAGATION_OTHER

record Mount =
  ContainerPath :: string
  HostPath :: string
  Readonly :: bool
  SelinuxRelabel :: bool
  Propagation :: MountPropagation

record KeyValue =
  Key :: string
  Value :: string

record Device =
  DeviceContainerPath :: string
  DeviceHostPath :: string
  DevicePermissions :: string

record Capability =
  AddCapabilities :: "string list"
  DropCapabilities :: "string list"

record LinuxContainerSecurityContext =
  Capabilities :: "Capability option"
  Privileged :: bool
  SelinuxOptions :: string
  NoNewPrivs :: bool
  ReadonlyRootfs :: bool

record ContainerConfig =
  Command :: "string list option"
  Args :: "string list"
  WorkingDir :: string
  Envs :: "KeyValue list"
  Mounts :: "Mount list"
  Devices :: "Device list"
  Tty :: bool
  SecurityContext :: LinuxContainerSecurityContext

record PodSandboxConfig =
  SandboxPrivileged :: bool
  CgroupParent :: string

record ImageConfig =
  Entrypoint :: "string list"
  Cmd :: "string list"
  Env :: "string list"
  ImageWorkingDir :: string

record SpecMount =
  Destination :: string
  MountType :: string
  Source :: string
  Options :: "string list"

record LinuxDevice =
  LinuxDevicePath :: string
  LinuxDeviceType :: string
  LinuxDeviceMajor :: int
  LinuxDeviceMinor :: int
  LinuxDeviceUID :: int
  LinuxDeviceGID :: int

record LinuxDeviceCgroup =
  CgroupAllow :: bool
  CgroupType :: string
  CgroupMajor :: "int option"
  CgroupMinor :: "int option"
  CgroupAccess :: string

text \<open>
  The runtime specification held by the generator, flattened: \<open>Process.Args\<close> is
  \<open>ProcessArgs\<close>, \<open>Linux.RootfsPropagation\<close> is \<open>LinuxRootfsPropagation\<close>, and so on.
\<close>

record Spec =
  ProcessArgs :: "string list"
  ProcessCwd :: string
  ProcessTerminal :: bool
  ProcessEnv :: "string list"
  ProcessCapabilities :: "string list"
  ProcessNoNewPrivileges :: bool
  ProcessSelinuxLabel :: string
  ProcessApparmorProfile :: string
  RootPath :: string
  RootReadonly :: bool
  SpecMounts :: "SpecMount list"
  LinuxRootfsPropagation :: string
  LinuxMountLabel :: string
  LinuxDevices :: "LinuxDevice list"
  LinuxResourcesDevices :: "LinuxDeviceCgroup list"
  LinuxReadonlyPaths :: "string list"
  LinuxMaskedPaths :: "string list"
  LinuxSeccomp :: "string option"


section \<open>container\_create.go: the host\<close>

text \<open>
  What the code asks of the operating system and of libraries whose code is not at hand
  is taken as a parameter: one record of functions. Each function answers from its
  arguments alone, so a directory created by \<open>MkdirAll\<close> does not change a later answer.
\<close>

datatype stat_result = StatOK | StatNotExist | StatError oserr

datatype relabel_result = RelabelOK | RelabelENOTSUP | RelabelError oserr

record MountInfo =
  Mountpoint :: string
  Optional :: string

record HostDevice =
  HostDevicePath :: string
  HostDeviceType :: string
  HostDeviceMajor :: int
  HostDeviceMinor :: int
  HostDeviceUid :: int
  HostDeviceGid :: int
  HostDevicePermissions :: string

record Cap =
  CapNumber :: nat
  CapString :: string

record Host =
  os_Stat :: "string \<Rightarrow> stat_result"
  os_MkdirAll :: "string \<Rightarrow> oserr option"
  os_ResolveSymbolicLink :: "string \<Rightarrow> oserr + string"
  os_LookupMount :: "string \<Rightarrow> oserr + MountInfo"
  label_Relabel :: "string \<Rightarrow> string \<Rightarrow> relabel_result"
  devices_DeviceFromPath :: "string \<Rightarrow> string \<Rightarrow> oserr + HostDevice"
  devices_HostDevices :: "oserr + HostDevice list"
  capability_List :: "Cap list"
  validate_LastCap :: nat
  validate_CapValid :: "string \<Rightarrow> bool"
  containerd_GenerateSpec :: "string \<Rightarrow> oserr + Spec"
  initSelinuxOpts :: "string \<Rightarrow> oserr + string \<times> string"


section \<open>container\_create.go: process arguments and environment\<close>

definition len :: "'a list option \<Rightarrow> nat" where
  "len xs = (case xs of None \<Rightarrow> 0 | Some ys \<Rightarrow> length ys)"

definition elems :: "'a list option \<Rightarrow> 'a list" where
  "elems xs = (case xs of None \<Rightarrow> [] | Some ys \<Rightarrow> ys)"

definition setOCIProcessArgs :: "Spec \<Rightarrow> ContainerConfig \<Rightarrow> ImageConfig \<Rightarrow> error + Spec" where
  "setOCIProcessArgs g config imageConfig =
     (let command0 = Command config;
          args0 = Args config;
          args = (if len command0 = 0 \<and> length args0 = 0 then Cmd imageConfig else args0);
          command = (if len command0 = 0 \<and> command0 = None
                     then Entrypoint imageConfig else elems command0)
      in if length command = 0 \<and> length args = 0 then Inl NoCommandSpecified
         else Inr (g\<lparr>ProcessArgs := command @ args\<rparr>))"

text \<open>
  Modelled from the spec: \<open>generate.Generator.AddProcessEnv\<close> is not among the sources.
  The environment is the list of \<open>name=value\<close> entries of the specification; adding a
  variable replaces the entry of the same name where there is one (the first), and
  appends the entry otherwise, so that a later declaration overrides an earlier one.
\<close>

fun setEnv :: "string \<Rightarrow> string \<Rightarrow> string list \<Rightarrow> string list" where
  "setEnv name entry [] = [entry]"
| "setEnv name entry (e # es) =
     (if HasPrefix e (name @ ''='') then entry # es else e # setEnv name entry es)"

definition AddProcessEnv :: "string \<Rightarrow> string \<Rightarrow> Spec \<Rightarrow> Spec" where
  "AddProcessEnv name val g =
     g\<lparr>ProcessEnv := setEnv name (name @ ''='' @ val) (ProcessEnv g)\<rparr>"

fun addImageEnvs :: "Spec \<Rightarrow> string list \<Rightarrow> error + Spec" where
  "addImageEnvs g [] = Inr g"
| "addImageEnvs g (e # es) =
     (let kv = SplitN2 e CHR ''=''
      in if length kv \<noteq> 2 then Inl (InvalidEnvironmentVariable e)
         else addImageEnvs (AddProcessEnv (kv ! 0) (kv ! 1) g) es)"

text \<open>The loop over \<open>config.GetEnvs()\<close> in \<open>generateContainerSpec\<close>.\<close>

fun addConfigEnvs :: "Spec \<Rightarrow> KeyValue list \<Rightarrow> Spec" where
  "addConfigEnvs g [] = g"
| "addConfigEnvs g (e # es) = addConfigEnvs (AddProcessEnv (Key e) (Value e) g) es"








section \<open>container\_create.go: bind mounts\<close>

text \<open>
  \<open>ensureShared\<close> and \<open>ensureSharedOrSlave\<close> return an error or nil: \<open>Some\<close> the error or
  \<open>None\<close>. The loops over the optional fields of the mount entry return at the first
  field that qualifies.
\<close>

fun hasSharedOpt :: "string list \<Rightarrow> bool" where
  "hasSharedOpt [] = False"
| "hasSharedOpt (opt # opts) = (if HasPrefix opt ''shared:'' then True else hasSharedOpt opts)"

fun hasSharedOrMasterOpt :: "string list \<Rightarrow> bool" where
  "hasSharedOrMasterOpt [] = False"
| "hasSharedOrMasterOpt (opt # opts) =
     (if HasPrefix opt ''shared:'' then True
      else if HasPrefix opt ''master:'' then True
      else hasSharedOrMasterOpt opts)"

definition ensureShared :: "string \<Rightarrow> (string \<Rightarrow> oserr + MountInfo) \<Rightarrow> error option" where
  "ensureShared path lookupMount =
     (case lookupMount path of
        Inl err \<Rightarrow> Some (LookupMountFailed err)
      | Inr mountInfo \<Rightarrow>
          if hasSharedOpt (Split (Optional mountInfo) CHR '' '') then None
          else Some (InvalidMountPropagation path (Mountpoint mountInfo) ''shared''))"

definition ensureSharedOrSlave :: "string \<Rightarrow> (string \<Rightarrow> oserr + MountInfo) \<Rightarrow> error option" where
  "ensureSharedOrSlave path lookupMount =
     (case lookupMount path of
        Inl err \<Rightarrow> Some (LookupMountFailed err)
      | Inr mountInfo \<Rightarrow>
          if hasSharedOrMasterOpt (Split (Optional mountInfo) CHR '' '') then None
          else Some (InvalidMountPropagation path (Mountpoint mountInfo) ''shared or slave''))"

text \<open>
  Modelled from the spec: the methods of \<open>generate.Generator\<close> are not among the sources.
  \<open>AddCgroupsMount\<close> adds the cgroup mount with the given read-only or read-write option,
  \<open>AddBindMount\<close> appends a bind mount to the ordered list of mounts (container path,
  host path, options), and \<open>SetLinuxRootPropagation\<close> sets the propagation of the
  container's root.
\<close>

definition AddCgroupsMount :: "string \<Rightarrow> Spec \<Rightarrow> Spec" where
  "AddCgroupsMount mountCgroupOption g =
     g\<lparr>SpecMounts := SpecMounts g @
          [\<lparr>Destination = ''/sys/fs/cgroup'', MountType = ''cgroup'', Source = ''cgroup'',
            Options = [mountCgroupOption]\<rparr>]\<rparr>"

definition AddBindMount :: "string \<Rightarrow> string \<Rightarrow> string list \<Rightarrow> Spec \<Rightarrow> Spec" where
  "AddBindMount source dest options g =
     g\<lparr>SpecMounts := SpecMounts g @
          [\<lparr>Destination = dest, MountType = ''bind'', Source = source, Options = options\<rparr>]\<rparr>"

definition SetLinuxRootPropagation :: "string \<Rightarrow> Spec \<Rightarrow> Spec" where
  "SetLinuxRootPropagation rp g = g\<lparr>LinuxRootfsPropagation := rp\<rparr>"

text \<open>
  The state of the loop of \<open>addOCIBindMounts\<close>: the generator and the warnings logged so
  far. \<open>bindMount\<close> is the body of the loop for one mount.
\<close>

definition unknownPropagationWarning :: "string \<Rightarrow> string" where
  "unknownPropagationWarning hostPath = ''Unknown propagation mode for hostPath '' @ hostPath"

definition bindMount :: "Host \<Rightarrow> string \<Rightarrow> Mount \<Rightarrow> Spec \<times> string list \<Rightarrow> error + Spec \<times> string list" where
  "bindMount h mountLabel mount st =
     (let g = fst st; warnings = snd st;
          dst = ContainerPath mount;
          src0 = HostPath mount
      in case (case os_Stat h src0 of
                 StatOK \<Rightarrow> None
               | StatError err \<Rightarrow> Some (StatFailed src0 err)
               | StatNotExist \<Rightarrow>
                   (case os_MkdirAll h src0 of
                      Some err \<Rightarrow> Some (MkdirFailed src0 err)
                    | None \<Rightarrow> None)) of
           Some e \<Rightarrow> Inl e
         | None \<Rightarrow>
        (case os_ResolveSymbolicLink h src0 of
           Inl err \<Rightarrow> Inl (ResolveSymlinkFailed err)
         | Inr src \<Rightarrow>
        (case (case Propagation mount of
                 PROPAGATION_PRIVATE \<Rightarrow> Inr ([''rbind'', ''rprivate''], g, warnings)
               | PROPAGATION_BIDIRECTIONAL \<Rightarrow>
                   (case ensureShared src (os_LookupMount h) of
                      Some err \<Rightarrow> Inl err
                    | None \<Rightarrow>
                        Inr ([''rbind'', ''rshared''], SetLinuxRootPropagation ''rshared'' g,
                             warnings))
               | PROPAGATION_HOST_TO_CONTAINER \<Rightarrow>
                   (case ensureSharedOrSlave src (os_LookupMount h) of
                      Some err \<Rightarrow> Inl err
                    | None \<Rightarrow>
                        Inr ([''rbind'', ''rslave''],
                             (if LinuxRootfsPropagation g \<noteq> ''rshared'' \<and>
                                 LinuxRootfsPropagation g \<noteq> ''rslave''
                              then SetLinuxRootPropagation ''rslave'' g else g),
                             warnings))
               | PROPAGATION_OTHER \<Rightarrow>
                   Inr ([''rbind'', ''rprivate''], g,
                        warnings @ [unknownPropagationWarning (HostPath mount)])) of
           Inl e \<Rightarrow> Inl e
         | Inr (options0, g1, warnings1) \<Rightarrow>
             (let options = options0 @ [if Readonly mount then ''ro'' else ''rw'']
              in case (if SelinuxRelabel mount then label_Relabel h src mountLabel
                       else RelabelOK) of
                   RelabelError err \<Rightarrow> Inl (RelabelFailed src mountLabel err)
                 | RelabelENOTSUP \<Rightarrow> Inr (AddBindMount src dst options g1, warnings1)
                 | RelabelOK \<Rightarrow> Inr (AddBindMount src dst options g1, warnings1)))))"

fun bindMounts :: "Host \<Rightarrow> string \<Rightarrow> Mount list \<Rightarrow> Spec \<times> string list \<Rightarrow> error + Spec \<times> string list" where
  "bindMounts h mountLabel [] st = Inr st"
| "bindMounts h mountLabel (mount # mounts) st =
     (case bindMount h mountLabel mount st of
        Inl e \<Rightarrow> Inl e
      | Inr st' \<Rightarrow> bindMounts h mountLabel mounts st')"

definition addOCIBindMounts :: "Host \<Rightarrow> Spec \<Rightarrow> Mount list \<Rightarrow> string \<Rightarrow> error + Spec \<times> string list" where
  "addOCIBindMounts h g mounts mountLabel =
     bindMounts h mountLabel mounts (AddCgroupsMount ''ro'' g, [])"


section \<open>container\_create.go: devices\<close>

text \<open>
  Modelled from the spec: \<open>generate.Generator.AddDevice\<close> is not among the sources; it adds
  the device node to the list of device nodes of the specification.
\<close>

definition AddDevice :: "LinuxDevice \<Rightarrow> Spec \<Rightarrow> Spec" where
  "AddDevice rd g = g\<lparr>LinuxDevices := LinuxDevices g @ [rd]\<rparr>"

fun addOCIDevices :: "Host \<Rightarrow> Spec \<Rightarrow> Device list \<Rightarrow> error + Spec" where
  "addOCIDevices h g [] = Inr g"
| "addOCIDevices h g (device # devs) =
     (case os_ResolveSymbolicLink h (DeviceHostPath device) of
        Inl err \<Rightarrow> Inl (DeviceFailed err)
      | Inr path \<Rightarrow>
     (case devices_DeviceFromPath h path (DevicePermissions device) of
        Inl err \<Rightarrow> Inl (DeviceFailed err)
      | Inr dev \<Rightarrow>
          (let rd = \<lparr>LinuxDevicePath = DeviceContainerPath device,
                     LinuxDeviceType = HostDeviceType dev,
                     LinuxDeviceMajor = HostDeviceMajor dev,
                     LinuxDeviceMinor = HostDeviceMinor dev,
                     LinuxDeviceUID = HostDeviceUid dev,
                     LinuxDeviceGID = HostDeviceGid dev\<rparr>;
               g1 = AddDevice rd g;
               g2 = g1\<lparr>LinuxResourcesDevices := LinuxResourcesDevices g1 @
                      [\<lparr>CgroupAllow = True, CgroupType = HostDeviceType dev,
                        CgroupMajor = Some (HostDeviceMajor dev),
                        CgroupMinor = Some (HostDeviceMinor dev),
                        CgroupAccess = HostDevicePermissions dev\<rparr>]\<rparr>
           in addOCIDevices h g2 devs)))"

fun addHostDevices :: "Spec \<Rightarrow> HostDevice list \<Rightarrow> Spec" where
  "addHostDevices g [] = g"
| "addHostDevices g (hostDevice # hostDevices) =
     (let rd = \<lparr>LinuxDevicePath = HostDevicePath hostDevice,
                LinuxDeviceType = HostDeviceType hostDevice,
                LinuxDeviceMajor = HostDeviceMajor hostDevice,
                LinuxDeviceMinor = HostDeviceMinor hostDevice,
                LinuxDeviceUID = HostDeviceUid hostDevice,
                LinuxDeviceGID = HostDeviceGid hostDevice\<rparr>
      in if HostDeviceMajor hostDevice = 0 \<and> HostDeviceMinor hostDevice = 0
         then addHostDevices g hostDevices
         else addHostDevices (AddDevice rd g) hostDevices)"

definition setOCIDevicesPrivileged :: "Host \<Rightarrow> Spec \<Rightarrow> error + Spec" where
  "setOCIDevicesPrivileged h g =
     (case devices_HostDevices h of
        Inl err \<Rightarrow> Inl (DeviceFailed err)
      | Inr hostDevices \<Rightarrow>
          Inr ((addHostDevices g hostDevices)
                 \<lparr>LinuxResourcesDevices :=
                    [\<lparr>CgroupAllow = True, CgroupType = [], CgroupMajor = None,
                      CgroupMinor = None, CgroupAccess = ''rwm''\<rparr>]\<rparr>))"


section \<open>container\_create.go: capabilities\<close>

definition getOCICapabilitiesList :: "Host \<Rightarrow> string list" where
  "getOCICapabilitiesList h =
     map (\<lambda>cap. ''CAP_'' @ ToUpper (CapString cap))
       (filter (\<lambda>cap. \<not> CapNumber cap > validate_LastCap h) (capability_List h))"

text \<open>
  Modelled from the spec: \<open>util.InStringSlice\<close> is not among the sources. The spec has the
  entry \<open>ALL\<close> of a list recognised; the letter case is ignored, as the comment of
  \<open>setOCICapabilities\<close> (if "all" is specified) and the upper-casing tests of its later
  loops have it.
\<close>

definition InStringSlice :: "string list \<Rightarrow> string \<Rightarrow> bool" where
  "InStringSlice ss str = list_ex (\<lambda>s. ToLower s = ToLower str) ss"

text \<open>
  Modelled from the spec: \<open>generate.Generator.AddProcessCapability\<close> and
  \<open>DropProcessCapability\<close> are not among the sources. The capabilities of the process are
  one set, kept as a list without repetition; adding and dropping fail for a name that
  the host's validation does not accept.
\<close>

definition AddProcessCapability :: "Host \<Rightarrow> string \<Rightarrow> Spec \<Rightarrow> error + Spec" where
  "AddProcessCapability h c g =
     (if \<not> validate_CapValid h c then Inl (InvalidCapability c)
      else Inr (g\<lparr>ProcessCapabilities := List.insert c (ProcessCapabilities g)\<rparr>))"

definition DropProcessCapability :: "Host \<Rightarrow> string \<Rightarrow> Spec \<Rightarrow> error + Spec" where
  "DropProcessCapability h c g =
     (if \<not> validate_CapValid h c then Inl (InvalidCapability c)
      else Inr (g\<lparr>ProcessCapabilities := removeAll c (ProcessCapabilities g)\<rparr>))"

text \<open>The four loops of \<open>setOCICapabilities\<close>.\<close>

fun addAllCapabilities :: "Host \<Rightarrow> Spec \<Rightarrow> string list \<Rightarrow> error + Spec" where
  "addAllCapabilities h g [] = Inr g"
| "addAllCapabilities h g (c # cs) =
     (case AddProcessCapability h c g of
        Inl err \<Rightarrow> Inl err
      | Inr g' \<Rightarrow> addAllCapabilities h g' cs)"

fun dropAllCapabilities :: "Host \<Rightarrow> Spec \<Rightarrow> string list \<Rightarrow> error + Spec" where
  "dropAllCapabilities h g [] = Inr g"
| "dropAllCapabilities h g (c # cs) =
     (case DropProcessCapability h c g of
        Inl err \<Rightarrow> Inl err
      | Inr g' \<Rightarrow> dropAllCapabilities h g' cs)"

fun addCapabilities :: "Host \<Rightarrow> Spec \<Rightarrow> string list \<Rightarrow> error + Spec" where
  "addCapabilities h g [] = Inr g"
| "addCapabilities h g (c # cs) =
     (if ToUpper c = ''ALL'' then addCapabilities h g cs
      else case AddProcessCapability h (''CAP_'' @ ToUpper c) g of
             Inl err \<Rightarrow> Inl err
           | Inr g' \<Rightarrow> addCapabilities h g' cs)"

fun dropCapabilities :: "Host \<Rightarrow> Spec \<Rightarrow> string list \<Rightarrow> error + Spec" where
  "dropCapabilities h g [] = Inr g"
| "dropCapabilities h g (c # cs) =
     (if ToUpper c = ''ALL'' then dropCapabilities h g cs
      else case DropProcessCapability h (''CAP_'' @ ToUpper c) g of
             Inl err \<Rightarrow> Inl err
           | Inr g' \<Rightarrow> dropCapabilities h g' cs)"

definition setOCICapabilities :: "Host \<Rightarrow> Spec \<Rightarrow> Capability option \<Rightarrow> error + Spec" where
  "setOCICapabilities h g capabilities =
     (case capabilities of
        None \<Rightarrow> Inr g
      | Some caps \<Rightarrow>
     (case (if InStringSlice (AddCapabilities caps) ''ALL''
            then addAllCapabilities h g (getOCICapabilitiesList h) else Inr g) of
        Inl err \<Rightarrow> Inl err
      | Inr g1 \<Rightarrow>
     (case (if InStringSlice (DropCapabilities caps) ''ALL''
            then dropAllCapabilities h g1 (getOCICapabilitiesList h) else Inr g1) of
        Inl err \<Rightarrow> Inl err
      | Inr g2 \<Rightarrow>
     (case addCapabilities h g2 (AddCapabilities caps) of
        Inl err \<Rightarrow> Inl err
      | Inr g3 \<Rightarrow> dropCapabilities h g3 (DropCapabilities caps)))))"


text \<open>
  The individual entries of an add-list or drop-list as the last two loops of
  \<open>setOCICapabilities\<close> apply them: the entries other than \<open>ALL\<close>, upper-cased, with the
  prefix \<open>CAP_\<close>.
\<close>

definition individualCapabilities :: "string list \<Rightarrow> string list" where
  "individualCapabilities cs =
     map (\<lambda>c. ''CAP_'' @ ToUpper c) (filter (\<lambda>c. ToUpper c \<noteq> ''ALL'') cs)"


section \<open>container\_create.go: privileged containers\<close>

fun clearReadOnly :: "string list \<Rightarrow> string list" where
  "clearReadOnly [] = []"
| "clearReadOnly (opt # opts) =
     (if opt \<noteq> ''ro'' then opt # clearReadOnly opts else clearReadOnly opts)"

text \<open>
  One round of the loop of \<open>setOCIBindMountsPrivileged\<close>: both tests are made on the same
  entry of \<open>spec.Mounts\<close>, one after the other.
\<close>

definition clearMountPrivileged :: "bool \<Rightarrow> SpecMount \<Rightarrow> SpecMount" where
  "clearMountPrivileged rootReadonly m =
     (let m1 = (if Destination m = ''/sys'' \<and> \<not> rootReadonly
                then m\<lparr>Options := clearReadOnly (Options m)\<rparr> else m)
      in if MountType m = ''cgroup'' then m1\<lparr>Options := clearReadOnly (Options m1)\<rparr> else m1)"

definition setOCIBindMountsPrivileged :: "Spec \<Rightarrow> Spec" where
  "setOCIBindMountsPrivileged spec =
     spec\<lparr>SpecMounts := map (clearMountPrivileged (RootReadonly spec)) (SpecMounts spec),
          LinuxReadonlyPaths := [],
          LinuxMaskedPaths := []\<rparr>"

text \<open>
  Modelled from the spec: \<open>generate.Generator.SetupPrivileged\<close> is not among the sources;
  privileged mode grants every available capability.
\<close>

definition SetupPrivileged :: "Host \<Rightarrow> bool \<Rightarrow> Spec \<Rightarrow> Spec" where
  "SetupPrivileged h privileged g =
     (if privileged then g\<lparr>ProcessCapabilities := getOCICapabilitiesList h\<rparr> else g)"

definition setOCIPrivileged :: "Host \<Rightarrow> Spec \<Rightarrow> ContainerConfig \<Rightarrow> error + Spec" where
  "setOCIPrivileged h g config =
     (let g1 = SetupPrivileged h True g;
          g2 = setOCIBindMountsPrivileged g1
      in case setOCIDevicesPrivileged h g2 of
           Inl err \<Rightarrow> Inl (FailedToSetDevicesMapping err)
         | Inr g3 \<Rightarrow> Inr g3)"


section \<open>container\_create.go: the specification of a container\<close>

definition relativeRootfsPath :: string where
  "relativeRootfsPath = ''rootfs''"

definition defaultRuntimeSpec :: "Host \<Rightarrow> string \<Rightarrow> error + Spec" where
  "defaultRuntimeSpec h ident =
     (case containerd_GenerateSpec h ident of
        Inl err \<Rightarrow> Inl (GenerateSpecFailed err)
      | Inr spec \<Rightarrow>
          Inr (spec\<lparr>SpecMounts := filter (\<lambda>m. Destination m \<noteq> ''/run'') (SpecMounts spec),
                    ProcessApparmorProfile := [],
                    LinuxSeccomp := None\<rparr>))"

text \<open>
  \<open>generateContainerSpec\<close>, from the default specification to \<open>SetRootReadonly\<close>. The
  statements after it (resources, cgroups path, namespaces, supplemental groups) cannot
  fail and write parts of the specification that are not in the record \<open>Spec\<close>; they are
  left out. The setters \<open>SetRootPath\<close>, \<open>SetProcessCwd\<close>, \<open>SetProcessTerminal\<close>,
  \<open>SetProcessSelinuxLabel\<close>, \<open>SetLinuxMountLabel\<close>, \<open>SetProcessNoNewPrivileges\<close> and
  \<open>SetRootReadonly\<close> of the generator are the updates of the fields they are named after.
\<close>

definition generateContainerSpec ::
  "Host \<Rightarrow> string \<Rightarrow> ContainerConfig \<Rightarrow> PodSandboxConfig \<Rightarrow> ImageConfig \<Rightarrow> Mount list \<Rightarrow> error + Spec" where
  "generateContainerSpec h ident config sandboxConfig imageConfig extraMounts =
     (case defaultRuntimeSpec h ident of
        Inl err \<Rightarrow> Inl err
      | Inr spec \<Rightarrow>
     (let g0 = spec\<lparr>RootPath := relativeRootfsPath\<rparr>
      in case setOCIProcessArgs g0 config imageConfig of
        Inl err \<Rightarrow> Inl err
      | Inr g1 \<Rightarrow>
     (let g2 = (if WorkingDir config \<noteq> [] then g1\<lparr>ProcessCwd := WorkingDir config\<rparr>
                else if ImageWorkingDir imageConfig \<noteq> []
                then g1\<lparr>ProcessCwd := ImageWorkingDir imageConfig\<rparr>
                else g1);
          g3 = g2\<lparr>ProcessTerminal := Tty config\<rparr>;
          g4 = (if Tty config then AddProcessEnv ''TERM'' ''xterm'' g3 else g3)
      in case addImageEnvs g4 (Env imageConfig) of
        Inl err \<Rightarrow> Inl err
      | Inr g5 \<Rightarrow>
     (let g6 = addConfigEnvs g5 (Envs config);
          securityContext = SecurityContext config
      in case initSelinuxOpts h (SelinuxOptions securityContext) of
        Inl err \<Rightarrow> Inl (InitSelinuxFailed err)
      | Inr (processLabel, mountLabel) \<Rightarrow>
     (let mounts = extraMounts @ Mounts config
      in case addOCIBindMounts h g6 mounts mountLabel of
        Inl err \<Rightarrow> Inl (FailedToSetOCIBindMounts err)
      | Inr (g7, warnings) \<Rightarrow>
     (case (if Privileged securityContext
            then (if \<not> Privileged securityContext then Inl InvalidPrivilegedConfig
                  else setOCIPrivileged h g7 config)
            else (case addOCIDevices h g7 (Devices config) of
                    Inl err \<Rightarrow> Inl (FailedToSetDevicesMapping err)
                  | Inr g8 \<Rightarrow>
                      (case setOCICapabilities h g8 (Capabilities securityContext) of
                         Inl err \<Rightarrow> Inl (FailedToSetCapabilities err)
                       | Inr g9 \<Rightarrow> Inr g9))) of
        Inl err \<Rightarrow> Inl err
      | Inr g10 \<Rightarrow>
          Inr (g10\<lparr>ProcessSelinuxLabel := processLabel,
                   LinuxMountLabel := mountLabel,
                   ProcessNoNewPrivileges := NoNewPrivs securityContext,
                   RootReadonly := ReadonlyRootfs securityContext\<rparr>)))))))"


section \<open>The sandbox store\<close>

text \<open>
  \<open>Sandbox\<close> embeds the metadata, of which the store reads the identifier only; \<open>Name\<close>
  stands for the rest of a sandbox.
\<close>

record Sandbox =
  ID :: string
  Name :: string

datatype truncindex_error = TruncErrNotExist | TruncErrOther string

datatype store_error = ErrAlreadyExist | ErrNotExist | ErrTruncIndex truncindex_error

text \<open>
  Modelled from the spec: \<open>truncindex.TruncIndex\<close> is not among the sources. The prefix
  index holds the full identifiers. An abbreviated identifier resolves if and only if
  exactly one stored identifier has it as a prefix; no match is "not found", and more
  than one match is ambiguous, which is "not found" as well. Adding inserts an
  identifier and deleting removes one.
\<close>

type_synonym TruncIndex = "string list"

definition NewTruncIndex :: "string list \<Rightarrow> TruncIndex" where
  "NewTruncIndex ids = remdups ids"

definition TruncIndex_Add :: "TruncIndex \<Rightarrow> string \<Rightarrow> truncindex_error + TruncIndex" where
  "TruncIndex_Add idx ident = Inr (List.insert ident idx)"

definition TruncIndex_Get :: "TruncIndex \<Rightarrow> string \<Rightarrow> truncindex_error + string" where
  "TruncIndex_Get idx s =
     (case filter (\<lambda>ident. prefix s ident) idx of
        [ident] \<Rightarrow> Inr ident
      | _ \<Rightarrow> Inl TruncErrNotExist)"

definition TruncIndex_Delete :: "TruncIndex \<Rightarrow> string \<Rightarrow> truncindex_error + TruncIndex" where
  "TruncIndex_Delete idx ident =
     (if ident \<in> set idx then Inr (removeAll ident idx) else Inl TruncErrNotExist)"

text \<open>The store; the lock has no part in a run of one operation at a time.\<close>

record Store =
  sandboxes :: "string \<rightharpoonup> Sandbox"
  idIndex :: TruncIndex

definition NewStore :: Store where
  "NewStore = \<lparr>sandboxes = Map.empty, idIndex = NewTruncIndex []\<rparr>"

definition Add :: "Store \<Rightarrow> Sandbox \<Rightarrow> store_error + Store" where
  "Add s sb =
     (case sandboxes s (ID sb) of
        Some _ \<Rightarrow> Inl ErrAlreadyExist
      | None \<Rightarrow>
          (case TruncIndex_Add (idIndex s) (ID sb) of
             Inl err \<Rightarrow> Inl (ErrTruncIndex err)
           | Inr idx \<Rightarrow> Inr (s\<lparr>idIndex := idx, sandboxes := (sandboxes s)(ID sb \<mapsto> sb)\<rparr>)))"

definition Get :: "Store \<Rightarrow> string \<Rightarrow> store_error + Sandbox" where
  "Get s ident0 =
     (case TruncIndex_Get (idIndex s) ident0 of
        Inl err \<Rightarrow> Inl (if err = TruncErrNotExist then ErrNotExist else ErrTruncIndex err)
      | Inr ident \<Rightarrow>
          (case sandboxes s ident of
             Some sb \<Rightarrow> Inr sb
           | None \<Rightarrow> Inl ErrNotExist))"

text \<open>
  \<open>Delete\<close> has no result in Go: it cannot report an error. The error of the index's
  own delete is dropped.
\<close>

definition Delete :: "Store \<Rightarrow> string \<Rightarrow> Store" where
  "Delete s ident0 =
     (case TruncIndex_Get (idIndex s) ident0 of
        Inl err \<Rightarrow> s
      | Inr ident \<Rightarrow>
          s\<lparr>idIndex := (case TruncIndex_Delete (idIndex s) ident of
                          Inl err \<Rightarrow> idIndex s
                        | Inr idx \<Rightarrow> idx),
            sandboxes := (sandboxes s)(ident := None)\<rparr>)"

text \<open>The stored identifiers that have a given string as a prefix.\<close>

definition matching :: "Store \<Rightarrow> string \<Rightarrow> string set" where
  "matching s p = {ident \<in> dom (sandboxes s). prefix p ident}"

text \<open>The stores that the operations build.\<close>

inductive reachable :: "Store \<Rightarrow> bool" where
  reachable_new: "reachable NewStore"
| reachable_add: "reachable s \<Longrightarrow> Add s sb = Inr s' \<Longrightarrow> reachable s'"
| reachable_delete: "reachable s \<Longrightarrow> reachable (Delete s ident)"


text \<open>
  The two indices of a store agree: the prefix index holds the keys of the map, each
  once, and every sandbox is stored under its own identifier.
\<close>

definition store_inv :: "Store \<Rightarrow> bool" where
  "store_inv s = (distinct (idIndex s) \<and> set (idIndex s) = dom (sandboxes s)
      \<and> (\<forall>i sb. sandboxes s i = Some sb \<longrightarrow> ID sb = i))"


section \<open>Notions for the statements and values for the examples\<close>

text \<open>The zero values of the Go types, from which the examples below are built.\<close>

definition zeroSpec :: Spec where
  "zeroSpec =
     \<lparr>ProcessArgs = [], ProcessCwd = [], ProcessTerminal = False, ProcessEnv = [],
      ProcessCapabilities = [], ProcessNoNewPrivileges = False, ProcessSelinuxLabel = [],
      ProcessApparmorProfile = [], RootPath = [], RootReadonly = False, SpecMounts = [],
      LinuxRootfsPropagation = [], LinuxMountLabel = [], LinuxDevices = [],
      LinuxResourcesDevices = [], LinuxReadonlyPaths = [], LinuxMaskedPaths = [],
      LinuxSeccomp = None\<rparr>"

definition zeroSecurityContext :: LinuxContainerSecurityContext where
  "zeroSecurityContext =
     \<lparr>Capabilities = None, Privileged = False, SelinuxOptions = [], NoNewPrivs = False,
      ReadonlyRootfs = False\<rparr>"

definition zeroConfig :: ContainerConfig where
  "zeroConfig =
     \<lparr>Command = None, Args = [], WorkingDir = [], Envs = [], Mounts = [], Devices = [],
      Tty = False, SecurityContext = zeroSecurityContext\<rparr>"

definition zeroImageConfig :: ImageConfig where
  "zeroImageConfig = \<lparr>Entrypoint = [], Cmd = [], Env = [], ImageWorkingDir = []\<rparr>"

definition zeroMount :: Mount where
  "zeroMount =
     \<lparr>ContainerPath = [], HostPath = [], Readonly = False, SelinuxRelabel = False,
      Propagation = PROPAGATION_PRIVATE\<rparr>"

text \<open>
  The effective arguments as claim C4 words them: the explicit command if it is not
  empty, else the image's entrypoint; followed by the explicit arguments if they are not
  empty, else the image's default arguments when no explicit command was given.
\<close>

definition claimedArgs :: "ContainerConfig \<Rightarrow> ImageConfig \<Rightarrow> string list" where
  "claimedArgs config imageConfig =
     (if elems (Command config) \<noteq> [] then elems (Command config) else Entrypoint imageConfig)
     @ (if Args config \<noteq> [] then Args config
        else if elems (Command config) = [] then Cmd imageConfig else [])"


text \<open>
  What the mount table says of a mount. The optional fields of an entry are separated by
  single spaces, so a field starts with a given tag exactly when the text starts with
  the tag or has the tag right after a space. A mount is shared when a field starts with
  \<open>shared:\<close>, and a slave when a field starts with \<open>master:\<close>.
\<close>

definition fieldWithPrefix :: "string \<Rightarrow> string \<Rightarrow> bool" where
  "fieldWithPrefix tag s =
     (prefix tag s \<or> list_ex (\<lambda>t. prefix (CHR '' '' # tag) t) (suffixes s))"

definition sharedMount :: "MountInfo \<Rightarrow> bool" where
  "sharedMount mi = fieldWithPrefix ''shared:'' (Optional mi)"

definition slaveMount :: "MountInfo \<Rightarrow> bool" where
  "slaveMount mi = fieldWithPrefix ''master:'' (Optional mi)"

text \<open>
  What a run of \<open>addOCIBindMounts\<close> that succeeds has done for one mount of the list: the
  low-level option of the propagation, the propagation of the container's root after
  the mount, the bind mount added to the specification (its source is the host path with
  the symbolic links resolved), and what the mount table must say of the source.
\<close>

definition propagationOption :: "MountPropagation \<Rightarrow> string" where
  "propagationOption p =
     (case p of
        PROPAGATION_PRIVATE \<Rightarrow> ''rprivate''
      | PROPAGATION_BIDIRECTIONAL \<Rightarrow> ''rshared''
      | PROPAGATION_HOST_TO_CONTAINER \<Rightarrow> ''rslave''
      | PROPAGATION_OTHER \<Rightarrow> ''rprivate'')"

definition rootAfter :: "string \<Rightarrow> MountPropagation \<Rightarrow> string" where
  "rootAfter root p =
     (case p of
        PROPAGATION_PRIVATE \<Rightarrow> root
      | PROPAGATION_BIDIRECTIONAL \<Rightarrow> ''rshared''
      | PROPAGATION_HOST_TO_CONTAINER \<Rightarrow>
          (if root = ''rshared'' \<or> root = ''rslave'' then root else ''rslave'')
      | PROPAGATION_OTHER \<Rightarrow> root)"

definition resolvedSource :: "Host \<Rightarrow> Mount \<Rightarrow> string" where
  "resolvedSource h m =
     (case os_ResolveSymbolicLink h (HostPath m) of Inl err \<Rightarrow> [] | Inr src \<Rightarrow> src)"

definition boundMount :: "Host \<Rightarrow> Mount \<Rightarrow> SpecMount" where
  "boundMount h m =
     \<lparr>Destination = ContainerPath m, MountType = ''bind'', Source = resolvedSource h m,
      Options = [''rbind'', propagationOption (Propagation m),
                 if Readonly m then ''ro'' else ''rw'']\<rparr>"

definition propagationAllowed :: "Host \<Rightarrow> Mount \<Rightarrow> bool" where
  "propagationAllowed h m =
     (case Propagation m of
        PROPAGATION_PRIVATE \<Rightarrow> True
      | PROPAGATION_BIDIRECTIONAL \<Rightarrow>
          (case os_LookupMount h (resolvedSource h m) of
             Inl err \<Rightarrow> False
           | Inr mi \<Rightarrow> sharedMount mi)
      | PROPAGATION_HOST_TO_CONTAINER \<Rightarrow>
          (case os_LookupMount h (resolvedSource h m) of
             Inl err \<Rightarrow> False
           | Inr mi \<Rightarrow> sharedMount mi \<or> slaveMount mi)
      | PROPAGATION_OTHER \<Rightarrow> True)"

definition propagationWarnings :: "Mount list \<Rightarrow> string list" where
  "propagationWarnings ms =
     map (\<lambda>m. unknownPropagationWarning (HostPath m))
       (filter (\<lambda>m. Propagation m = PROPAGATION_OTHER) ms)"

text \<open>
  A host for the examples: every path exists and resolves to itself, \<open>/shared\<close> is a
  shared mount, \<open>/slave\<close> a slave mount, \<open>/both\<close> is both, every other path is a private
  mount (\<open>/tagged\<close> has optional fields that merely contain the text \<open>shared:\<close>), and
  there are three capabilities.
\<close>

definition exampleHost :: Host where
  "exampleHost =
     \<lparr>os_Stat = (\<lambda>path. StatOK),
      os_MkdirAll = (\<lambda>path. None),
      os_ResolveSymbolicLink = (\<lambda>path. Inr path),
      os_LookupMount = (\<lambda>path.
         Inr \<lparr>Mountpoint = path,
              Optional = (if path = ''/shared'' then ''shared:1''
                          else if path = ''/slave'' then ''master:2''
                          else if path = ''/both'' then ''shared:3 master:2''
                          else if path = ''/tagged'' then ''unbindable x-shared:1''
                          else [])\<rparr>),
      label_Relabel = (\<lambda>path lbl. RelabelOK),
      devices_DeviceFromPath = (\<lambda>path perm. Inl ''no such device''),
      devices_HostDevices = Inr [],
      capability_List =
        [\<lparr>CapNumber = 0, CapString = ''chown''\<rparr>, \<lparr>CapNumber = 5, CapString = ''kill''\<rparr>,
         \<lparr>CapNumber = 12, CapString = ''net_admin''\<rparr>],
      validate_LastCap = 37,
      validate_CapValid = (\<lambda>c. c \<in> set [''CAP_CHOWN'', ''CAP_KILL'', ''CAP_NET_ADMIN'']),
      containerd_GenerateSpec = (\<lambda>ident. Inr zeroSpec),
      initSelinuxOpts = (\<lambda>opts. Inr ([], []))\<rparr>"


text \<open>
  What precedes and follows the choice of the options for one mount went well: the host
  path exists or could be created, it resolves to \<open>src\<close>, and the relabelling, when
  asked for, did not fail (not being supported is not a failure).
\<close>

definition sourceReady :: "Host \<Rightarrow> string \<Rightarrow> Mount \<Rightarrow> string \<Rightarrow> bool" where
  "sourceReady h lbl m src =
     ((os_Stat h (HostPath m) = StatOK \<or>
       os_Stat h (HostPath m) = StatNotExist \<and> os_MkdirAll h (HostPath m) = None)
      \<and> os_ResolveSymbolicLink h (HostPath m) = Inr src
      \<and> (SelinuxRelabel m \<longrightarrow> (\<forall>err. label_Relabel h src lbl \<noteq> RelabelError err)))"


section \<open>Properties of the terminal resizing\<close>

lemma drain_resized:
  "resized (drain rs t) = resized t @ filter (\<lambda>s. \<not> (Height s < 1 \<or> Width s < 1)) (delivered rs)"
  by (induction rs t rule: drain.induct) auto

lemma drain_returned:
  "returned (drain rs t) = (returned t \<or> ChanClosed \<in> set rs)"
  by (induction rs t rule: drain.induct) auto

text \<open>
  C5. Given a non-nil resize channel, the goroutine of \<open>handleResizing\<close> calls the resize
  function once for each size it receives whose width and height are both at least 1, in
  the order of arrival, drops every size with a dimension below 1, and has returned
  exactly when the channel has been closed.
\<close>

theorem handleResizing_drains:
  "\<exists>t. handleResizing (Some rs) = Some t
     \<and> resized t = filter (\<lambda>s. 0 < Width s \<and> 0 < Height s) (delivered rs)
     \<and> returned t = (ChanClosed \<in> set rs)"
proof -
  have "(\<lambda>s::TerminalSize. \<not> (Height s < 1 \<or> Width s < 1)) = (\<lambda>s. 0 < Width s \<and> 0 < Height s)"
    by auto
  then show ?thesis
    by (simp add: handleResizing_def drain_resized drain_returned)
qed

text \<open>
  The sizes (0,0), (80,24), (0,5), (100,40) followed by the close of the channel: the
  resize function is called twice, with (80,24) and then (100,40), and the goroutine has
  returned.
\<close>

lemma handleResizing_example:
  "handleResizing
     (Some [Recv \<lparr>Width = 0, Height = 0\<rparr>, Recv \<lparr>Width = 80, Height = 24\<rparr>,
            Recv \<lparr>Width = 0, Height = 5\<rparr>, Recv \<lparr>Width = 100, Height = 40\<rparr>, ChanClosed])
   = Some \<lparr>resized = [\<lparr>Width = 80, Height = 24\<rparr>, \<lparr>Width = 100, Height = 40\<rparr>],
            returned = True\<rparr>"
  by (simp add: handleResizing_def)

text \<open>
  C10. With a nil resize channel \<open>handleResizing\<close> returns without spawning the goroutine,
  so the resize function is never called.
\<close>

theorem handleResizing_nil: "handleResizing None = None"
  by (simp add: handleResizing_def)


section \<open>Properties of the seccomp options\<close>

text \<open>
  C9. For a privileged container \<open>generateSeccompSpecOpts\<close> returns no option and no error,
  whatever the profile name and whether or not seccomp is enabled.
\<close>

theorem generateSeccompSpecOpts_privileged:
  "generateSeccompSpecOpts seccompProf True seccompEnabled = Inr None"
  by (simp add: generateSeccompSpecOpts_def)

section \<open>Properties of the sandbox store\<close>


lemma TruncIndex_Get_Inr:
  "TruncIndex_Get idx p = Inr i \<Longrightarrow> filter (\<lambda>ident. prefix p ident) idx = [i]"
  by (auto simp: TruncIndex_Get_def split: list.splits)

lemma TruncIndex_Get_mem:
  "TruncIndex_Get idx p = Inr i \<Longrightarrow> i \<in> set idx \<and> prefix p i"
proof -
  assume "TruncIndex_Get idx p = Inr i"
  then have "filter (\<lambda>ident. prefix p ident) idx = [i]" by (rule TruncIndex_Get_Inr)
  then have "i \<in> set (filter (\<lambda>ident. prefix p ident) idx)" by simp
  then show ?thesis by simp
qed

lemma TruncIndex_Get_Inl: "TruncIndex_Get idx p = Inl e \<Longrightarrow> e = TruncErrNotExist"
  by (auto simp: TruncIndex_Get_def split: list.splits)

lemma store_inv_New: "store_inv NewStore"
  by (simp add: store_inv_def NewStore_def NewTruncIndex_def)

lemma store_inv_Add: "store_inv s \<Longrightarrow> Add s sb = Inr s' \<Longrightarrow> store_inv s'"
  by (auto simp: store_inv_def Add_def TruncIndex_Add_def split: option.splits if_splits)

lemma store_inv_Delete: "store_inv s \<Longrightarrow> store_inv (Delete s p)"
  by (auto simp: store_inv_def Delete_def TruncIndex_Delete_def distinct_removeAll
      dest: TruncIndex_Get_mem split: sum.splits if_splits)

lemma reachable_inv: "reachable s \<Longrightarrow> store_inv s"
  by (induction rule: reachable.induct) (auto intro: store_inv_New store_inv_Add store_inv_Delete)

lemma matching_card:
  assumes "store_inv s"
  shows "card (matching s p) = length (filter (\<lambda>ident. prefix p ident) (idIndex s))"
proof -
  have "matching s p = set (filter (\<lambda>ident. prefix p ident) (idIndex s))"
    using assms by (auto simp: matching_def store_inv_def)
  moreover have "distinct (filter (\<lambda>ident. prefix p ident) (idIndex s))"
    using assms by (simp add: store_inv_def)
  ultimately show ?thesis using distinct_card by fastforce
qed

lemma Get_cases:
  assumes "store_inv s"
  shows "Get s p =
    (case filter (\<lambda>ident. prefix p ident) (idIndex s) of
       [i] \<Rightarrow> (case sandboxes s i of Some sb \<Rightarrow> Inr sb | None \<Rightarrow> Inl ErrNotExist)
     | _ \<Rightarrow> Inl ErrNotExist)"
  by (auto simp: Get_def TruncIndex_Get_def split: list.splits)

text \<open>
  C1. In a store built by \<open>NewStore\<close>, \<open>Add\<close> and \<open>Delete\<close>, \<open>Get\<close> returns the stored sandbox
  whose identifier has the given string as a prefix when exactly one stored identifier
  has, and fails with \<open>ErrNotExist\<close> both when no stored identifier has the prefix and
  when two or more have: the caller cannot tell an ambiguous prefix from an absent one.
\<close>

theorem Get_prefix_lookup:
  assumes "reachable s"
  shows "(card (matching s p) = 1 \<longrightarrow>
            (\<exists>sb. Get s p = Inr sb \<and> prefix p (ID sb) \<and> sandboxes s (ID sb) = Some sb))
       \<and> (card (matching s p) = 0 \<longrightarrow> Get s p = Inl ErrNotExist)
       \<and> (2 \<le> card (matching s p) \<longrightarrow> Get s p = Inl ErrNotExist)"
proof -
  have inv: "store_inv s" using assms by (rule reachable_inv)
  let ?ms = "filter (\<lambda>ident. prefix p ident) (idIndex s)"
  have c: "card (matching s p) = length ?ms" using inv by (rule matching_card)
  have one: "\<exists>sb. Get s p = Inr sb \<and> prefix p (ID sb) \<and> sandboxes s (ID sb) = Some sb"
    if "length ?ms = 1"
  proof -
    from that obtain i where i: "?ms = [i]" by (cases ?ms) auto
    then have "i \<in> set ?ms" by simp
    then have mem: "i \<in> set (idIndex s)" and pre: "prefix p i" by auto
    from mem inv obtain sb where sb: "sandboxes s i = Some sb" by (auto simp: store_inv_def)
    with inv have "ID sb = i" by (simp add: store_inv_def)
    moreover have "Get s p = Inr sb" using i sb by (simp add: Get_cases[OF inv])
    ultimately show ?thesis using pre sb by auto
  qed
  have zero: "Get s p = Inl ErrNotExist" if "length ?ms = 0"
    using that by (simp add: Get_cases[OF inv])
  have many: "Get s p = Inl ErrNotExist" if "2 \<le> length ?ms"
    using that by (cases ?ms rule: list.exhaust) (auto simp: Get_cases[OF inv] split: list.splits)
  show ?thesis using one zero many c by presburger
qed

lemma Delete_resolved:
  "TruncIndex_Get (idIndex s) p = Inr i \<Longrightarrow>
     Delete s p = s\<lparr>idIndex := removeAll i (idIndex s), sandboxes := (sandboxes s)(i := None)\<rparr>"
  by (auto simp: Delete_def TruncIndex_Delete_def dest: TruncIndex_Get_mem)

lemma Delete_unresolved:
  "TruncIndex_Get (idIndex s) p = Inl e \<Longrightarrow> Delete s p = s"
  by (simp add: Delete_def)

lemma Delete_twice: "Delete (Delete s p) p = Delete s p"
proof (cases "TruncIndex_Get (idIndex s) p")
  case (Inl e)
  then show ?thesis by (simp add: Delete_unresolved)
next
  case (Inr i)
  then have f: "filter (\<lambda>ident. prefix p ident) (idIndex s) = [i]" by (rule TruncIndex_Get_Inr)
  have "filter (\<lambda>ident. prefix p ident) (removeAll i (idIndex s))
        = removeAll i (filter (\<lambda>ident. prefix p ident) (idIndex s))"
    by (induction "idIndex s") (auto simp: removeAll_filter_not_eq filter_filter intro: filter_cong)
  then have "filter (\<lambda>ident. prefix p ident) (removeAll i (idIndex s)) = []"
    using f by simp
  then have "TruncIndex_Get (idIndex (Delete s p)) p = Inl TruncErrNotExist"
    using Inr by (simp add: Delete_resolved TruncIndex_Get_def)
  then show ?thesis by (rule Delete_unresolved)
qed

text \<open>
  C8. In a store built by \<open>NewStore\<close>, \<open>Add\<close> and \<open>Delete\<close>, \<open>Delete\<close> of an identifier or
  prefix that \<open>Get\<close> resolves removes that sandbox from the map and from the prefix
  index; \<open>Delete\<close> of one that \<open>Get\<close> does not resolve leaves the store as it is; and a
  second \<open>Delete\<close> of the same identifier changes nothing. \<open>Delete\<close> has no error result.
\<close>

theorem Delete_removes_or_noop:
  assumes "reachable s"
  shows "(\<forall>sb. Get s p = Inr sb \<longrightarrow>
            Delete s p = s\<lparr>idIndex := removeAll (ID sb) (idIndex s),
                           sandboxes := (sandboxes s)(ID sb := None)\<rparr>
            \<and> ID sb \<notin> set (idIndex (Delete s p)) \<and> sandboxes (Delete s p) (ID sb) = None)
       \<and> ((\<exists>e. Get s p = Inl e) \<longrightarrow> Delete s p = s)
       \<and> Delete (Delete s p) p = Delete s p"
proof -
  have inv: "store_inv s" using assms by (rule reachable_inv)
  have a: "Delete s p = s\<lparr>idIndex := removeAll (ID sb) (idIndex s),
                           sandboxes := (sandboxes s)(ID sb := None)\<rparr>
            \<and> ID sb \<notin> set (idIndex (Delete s p)) \<and> sandboxes (Delete s p) (ID sb) = None"
    if "Get s p = Inr sb" for sb
  proof -
    from that obtain i where i: "TruncIndex_Get (idIndex s) p = Inr i" and sb: "sandboxes s i = Some sb"
      by (auto simp: Get_def split: sum.splits option.splits)
    from sb inv have "ID sb = i" by (simp add: store_inv_def)
    then show ?thesis using Delete_resolved[OF i] by simp
  qed
  have b: "Delete s p = s" if "Get s p = Inl e" for e
  proof (cases "TruncIndex_Get (idIndex s) p")
    case (Inl e')
    then show ?thesis by (rule Delete_unresolved)
  next
    case (Inr i)
    then have "i \<in> set (idIndex s)" by (auto dest: TruncIndex_Get_mem)
    with inv obtain sb where "sandboxes s i = Some sb" by (auto simp: store_inv_def)
    with Inr that show ?thesis by (simp add: Get_def)
  qed
  show ?thesis using a b Delete_twice by blast
qed


theorem Get_prefix_lookup_witness:
  "reachable \<lparr>sandboxes = [''abc'' \<mapsto> \<lparr>ID = ''abc'', Name = ''a''\<rparr>, ''abd'' \<mapsto> \<lparr>ID = ''abd'', Name = ''b''\<rparr>],
              idIndex = [''abd'', ''abc'']\<rparr>
   \<and> card (matching \<lparr>sandboxes = [''abc'' \<mapsto> \<lparr>ID = ''abc'', Name = ''a''\<rparr>, ''abd'' \<mapsto> \<lparr>ID = ''abd'', Name = ''b''\<rparr>],
              idIndex = [''abd'', ''abc'']\<rparr> ''abc'') = 1
   \<and> Get \<lparr>sandboxes = [''abc'' \<mapsto> \<lparr>ID = ''abc'', Name = ''a''\<rparr>, ''abd'' \<mapsto> \<lparr>ID = ''abd'', Name = ''b''\<rparr>],
              idIndex = [''abd'', ''abc'']\<rparr> ''abc'' = Inr \<lparr>ID = ''abc'', Name = ''a''\<rparr>
   \<and> card (matching \<lparr>sandboxes = [''abc'' \<mapsto> \<lparr>ID = ''abc'', Name = ''a''\<rparr>, ''abd'' \<mapsto> \<lparr>ID = ''abd'', Name = ''b''\<rparr>],
              idIndex = [''abd'', ''abc'']\<rparr> ''x'') = 0
   \<and> Get \<lparr>sandboxes = [''abc'' \<mapsto> \<lparr>ID = ''abc'', Name = ''a''\<rparr>, ''abd'' \<mapsto> \<lparr>ID = ''abd'', Name = ''b''\<rparr>],
              idIndex = [''abd'', ''abc'']\<rparr> ''x'' = Inl ErrNotExist
   \<and> 2 \<le> card (matching \<lparr>sandboxes = [''abc'' \<mapsto> \<lparr>ID = ''abc'', Name = ''a''\<rparr>, ''abd'' \<mapsto> \<lparr>ID = ''abd'', Name = ''b''\<rparr>],
              idIndex = [''abd'', ''abc'']\<rparr> ''ab'')
   \<and> Get \<lparr>sandboxes = [''abc'' \<mapsto> \<lparr>ID = ''abc'', Name = ''a''\<rparr>, ''abd'' \<mapsto> \<lparr>ID = ''abd'', Name = ''b''\<rparr>],
              idIndex = [''abd'', ''abc'']\<rparr> ''ab'' = Inl ErrNotExist"
proof -
  let ?a = "\<lparr>ID = ''abc'', Name = ''a''\<rparr>"
  let ?b = "\<lparr>ID = ''abd'', Name = ''b''\<rparr>"
  let ?s1 = "\<lparr>sandboxes = [''abc'' \<mapsto> ?a], idIndex = [''abc'']\<rparr>"
  let ?s = "\<lparr>sandboxes = [''abc'' \<mapsto> ?a, ''abd'' \<mapsto> ?b], idIndex = [''abd'', ''abc'']\<rparr>"
  have a1: "Add NewStore ?a = Inr ?s1"
    by (simp add: Add_def NewStore_def NewTruncIndex_def TruncIndex_Add_def)
  have a2: "Add ?s1 ?b = Inr ?s"
    by (simp add: Add_def TruncIndex_Add_def)
  have r: "reachable ?s"
    by (rule reachable_add[OF reachable_add[OF reachable_new a1] a2])
  have m1: "matching ?s ''abc'' = {''abc''}" by (auto simp: matching_def)
  have m0: "matching ?s ''x'' = {}" by (auto simp: matching_def)
  have m2: "matching ?s ''ab'' = {''abc'', ''abd''}" by (auto simp: matching_def)
  have c1: "card (matching ?s ''abc'') = 1" by (simp add: m1)
  have c0: "card (matching ?s ''x'') = 0" by (simp add: m0)
  have c2: "2 \<le> card (matching ?s ''ab'')" by (simp add: m2)
  have g1: "Get ?s ''abc'' = Inr ?a" by (simp add: Get_def TruncIndex_Get_def)
  show ?thesis
    using r c1 c0 c2 g1 Get_prefix_lookup[OF r, of "''x''"] Get_prefix_lookup[OF r, of "''ab''"]
      Get_prefix_lookup[OF r, of "''abc''"]
    by simp
qed

theorem Delete_removes_or_noop_witness:
  "reachable \<lparr>sandboxes = [''abc'' \<mapsto> \<lparr>ID = ''abc'', Name = ''a''\<rparr>, ''abd'' \<mapsto> \<lparr>ID = ''abd'', Name = ''b''\<rparr>],
              idIndex = [''abd'', ''abc'']\<rparr>
   \<and> Get \<lparr>sandboxes = [''abc'' \<mapsto> \<lparr>ID = ''abc'', Name = ''a''\<rparr>, ''abd'' \<mapsto> \<lparr>ID = ''abd'', Name = ''b''\<rparr>],
              idIndex = [''abd'', ''abc'']\<rparr> ''abc'' = Inr \<lparr>ID = ''abc'', Name = ''a''\<rparr>
   \<and> ''abc'' \<notin> set (idIndex (Delete \<lparr>sandboxes = [''abc'' \<mapsto> \<lparr>ID = ''abc'', Name = ''a''\<rparr>, ''abd'' \<mapsto> \<lparr>ID = ''abd'', Name = ''b''\<rparr>],
              idIndex = [''abd'', ''abc'']\<rparr> ''abc''))
   \<and> sandboxes (Delete \<lparr>sandboxes = [''abc'' \<mapsto> \<lparr>ID = ''abc'', Name = ''a''\<rparr>, ''abd'' \<mapsto> \<lparr>ID = ''abd'', Name = ''b''\<rparr>],
              idIndex = [''abd'', ''abc'']\<rparr> ''abc'') ''abc'' = None
   \<and> Get \<lparr>sandboxes = [''abc'' \<mapsto> \<lparr>ID = ''abc'', Name = ''a''\<rparr>, ''abd'' \<mapsto> \<lparr>ID = ''abd'', Name = ''b''\<rparr>],
              idIndex = [''abd'', ''abc'']\<rparr> ''ab'' = Inl ErrNotExist
   \<and> Delete \<lparr>sandboxes = [''abc'' \<mapsto> \<lparr>ID = ''abc'', Name = ''a''\<rparr>, ''abd'' \<mapsto> \<lparr>ID = ''abd'', Name = ''b''\<rparr>],
              idIndex = [''abd'', ''abc'']\<rparr> ''ab''
       = \<lparr>sandboxes = [''abc'' \<mapsto> \<lparr>ID = ''abc'', Name = ''a''\<rparr>, ''abd'' \<mapsto> \<lparr>ID = ''abd'', Name = ''b''\<rparr>],
              idIndex = [''abd'', ''abc'']\<rparr>"
proof -
  let ?a = "\<lparr>ID = ''abc'', Name = ''a''\<rparr>"
  let ?b = "\<lparr>ID = ''abd'', Name = ''b''\<rparr>"
  let ?s1 = "\<lparr>sandboxes = [''abc'' \<mapsto> ?a], idIndex = [''abc'']\<rparr>"
  let ?s = "\<lparr>sandboxes = [''abc'' \<mapsto> ?a, ''abd'' \<mapsto> ?b], idIndex = [''abd'', ''abc'']\<rparr>"
  have a1: "Add NewStore ?a = Inr ?s1"
    by (simp add: Add_def NewStore_def NewTruncIndex_def TruncIndex_Add_def)
  have a2: "Add ?s1 ?b = Inr ?s"
    by (simp add: Add_def TruncIndex_Add_def)
  have r: "reachable ?s"
    by (rule reachable_add[OF reachable_add[OF reachable_new a1] a2])
  have g1: "Get ?s ''abc'' = Inr ?a" by (simp add: Get_def TruncIndex_Get_def)
  have g2: "Get ?s ''ab'' = Inl ErrNotExist" by (simp add: Get_def TruncIndex_Get_def)
  show ?thesis
    using r g1 g2 Delete_removes_or_noop[OF r, of "''abc''"] Delete_removes_or_noop[OF r, of "''ab''"]
    by simp
qed

section \<open>Properties of the process arguments\<close>


text \<open>
  The arguments as claim C4 words them are not what the code computes for a command that
  is an empty list but not nil: the code takes the image's entrypoint only for a nil
  command, and here it leaves the entrypoint out.
\<close>

theorem setOCIProcessArgs_claimed_counterexample:
  "setOCIProcessArgs zeroSpec (zeroConfig\<lparr>Command := Some []\<rparr>)
       (zeroImageConfig\<lparr>Entrypoint := [''/bin/sh''], Cmd := [''-c'', ''true'']\<rparr>)
     = Inr (zeroSpec\<lparr>ProcessArgs := [''-c'', ''true'']\<rparr>)
   \<and> claimedArgs (zeroConfig\<lparr>Command := Some []\<rparr>)
       (zeroImageConfig\<lparr>Entrypoint := [''/bin/sh''], Cmd := [''-c'', ''true'']\<rparr>)
     = [''/bin/sh'', ''-c'', ''true'']
   \<and> setOCIProcessArgs zeroSpec (zeroConfig\<lparr>Command := Some []\<rparr>)
       (zeroImageConfig\<lparr>Entrypoint := [''/bin/sh''], Cmd := [''-c'', ''true'']\<rparr>)
     \<noteq> Inr (zeroSpec\<lparr>ProcessArgs := claimedArgs (zeroConfig\<lparr>Command := Some []\<rparr>)
       (zeroImageConfig\<lparr>Entrypoint := [''/bin/sh''], Cmd := [''-c'', ''true'']\<rparr>)\<rparr>)"
  by (simp add: setOCIProcessArgs_def claimedArgs_def len_def elems_def zeroConfig_def
      zeroImageConfig_def zeroSpec_def)

text \<open>
  C4, amended. For a command that is nil or not empty, the arguments of the process are
  the explicit command if it is not empty, else the image's entrypoint, followed by the
  explicit arguments if they are not empty, else the image's default arguments when no
  explicit command was given; the call fails with \<open>NoCommandSpecified\<close> when both parts
  are empty. For a command that is an empty list but not nil, the entrypoint is not used:
  the arguments are the explicit arguments if not empty, else the image's default
  arguments, and the call fails when these are empty too. An explicit command that is not
  empty, with no explicit arguments, gives exactly that command.
\<close>

theorem setOCIProcessArgs_argv:
  "(Command config \<noteq> Some [] \<longrightarrow>
      setOCIProcessArgs g config imageConfig =
        (if claimedArgs config imageConfig = [] then Inl NoCommandSpecified
         else Inr (g\<lparr>ProcessArgs := claimedArgs config imageConfig\<rparr>)))
   \<and> (Command config = Some [] \<longrightarrow>
      setOCIProcessArgs g config imageConfig =
        (if Args config \<noteq> [] then Inr (g\<lparr>ProcessArgs := Args config\<rparr>)
         else if Cmd imageConfig \<noteq> [] then Inr (g\<lparr>ProcessArgs := Cmd imageConfig\<rparr>)
         else Inl NoCommandSpecified))
   \<and> (\<forall>c. Command config = Some c \<and> c \<noteq> [] \<and> Args config = [] \<longrightarrow>
      setOCIProcessArgs g config imageConfig = Inr (g\<lparr>ProcessArgs := c\<rparr>))"
  by (cases "Command config")
     (auto simp: setOCIProcessArgs_def claimedArgs_def len_def elems_def Let_def)

theorem setOCIProcessArgs_argv_witness:
  "setOCIProcessArgs zeroSpec zeroConfig
       (zeroImageConfig\<lparr>Entrypoint := [''/bin/sh''], Cmd := [''-c'', ''true'']\<rparr>)
     = Inr (zeroSpec\<lparr>ProcessArgs := [''/bin/sh'', ''-c'', ''true'']\<rparr>)
   \<and> setOCIProcessArgs zeroSpec (zeroConfig\<lparr>Command := Some [''/bin/echo'']\<rparr>)
       (zeroImageConfig\<lparr>Entrypoint := [''/bin/sh''], Cmd := [''-c'', ''true'']\<rparr>)
     = Inr (zeroSpec\<lparr>ProcessArgs := [''/bin/echo'']\<rparr>)
   \<and> setOCIProcessArgs zeroSpec (zeroConfig\<lparr>Command := Some []\<rparr>)
       (zeroImageConfig\<lparr>Entrypoint := [''/bin/sh'']\<rparr>)
     = Inl NoCommandSpecified
   \<and> setOCIProcessArgs zeroSpec zeroConfig zeroImageConfig = Inl NoCommandSpecified"
  using setOCIProcessArgs_argv[of zeroConfig zeroSpec
          "zeroImageConfig\<lparr>Entrypoint := [''/bin/sh''], Cmd := [''-c'', ''true'']\<rparr>"]
        setOCIProcessArgs_argv[of "zeroConfig\<lparr>Command := Some [''/bin/echo'']\<rparr>" zeroSpec
          "zeroImageConfig\<lparr>Entrypoint := [''/bin/sh''], Cmd := [''-c'', ''true'']\<rparr>"]
        setOCIProcessArgs_argv[of "zeroConfig\<lparr>Command := Some []\<rparr>" zeroSpec
          "zeroImageConfig\<lparr>Entrypoint := [''/bin/sh'']\<rparr>"]
        setOCIProcessArgs_argv[of zeroConfig zeroSpec zeroImageConfig]
  by (simp add: claimedArgs_def elems_def zeroConfig_def zeroImageConfig_def)

section \<open>Properties of the bind mounts\<close>

lemma Split_not_Nil: "Split s sep \<noteq> []"
  by (induction s) (auto split: list.splits)

lemma hd_Split: "hd (Split s sep) = takeWhile (\<lambda>c. c \<noteq> sep) s"
  by (induction s) (auto simp: Split_not_Nil split: list.splits)

lemma tl_Split_Cons:
  "c \<noteq> sep \<Longrightarrow> tl (Split (c # cs) sep) = tl (Split cs sep)"
  by (auto simp: Split_not_Nil split: list.splits)

lemma prefix_takeWhile_tag:
  "sep \<notin> set tag \<Longrightarrow> prefix tag (takeWhile (\<lambda>c. c \<noteq> sep) s) = prefix tag s"
proof (induction s arbitrary: tag)
  case Nil
  then show ?case by simp
next
  case (Cons c cs)
  show ?case
  proof (cases tag)
    case Nil
    then show ?thesis by simp
  next
    case (Cons t ts)
    with Cons.prems Cons.IH[of ts] show ?thesis by auto
  qed
qed

lemma list_ex_hd_tl: "xs \<noteq> [] \<Longrightarrow> list_ex P xs = (P (hd xs) \<or> list_ex P (tl xs))"
  by (cases xs) auto

lemma list_ex_Split:
  assumes "sep \<notin> set tag"
  shows "list_ex (\<lambda>opt. prefix tag opt) (Split s sep) =
           (prefix tag s \<or> list_ex (\<lambda>opt. prefix tag opt) (tl (Split s sep)))"
  using assms by (simp add: list_ex_hd_tl[OF Split_not_Nil] hd_Split prefix_takeWhile_tag)

lemma tl_Split_suffixes:
  assumes "CHR '' '' \<notin> set tag"
  shows "list_ex (\<lambda>opt. prefix tag opt) (tl (Split s CHR '' '')) =
           list_ex (\<lambda>t. prefix (CHR '' '' # tag) t) (suffixes s)"
proof (induction s)
  case Nil
  show ?case by simp
next
  case (Cons c cs)
  show ?case
  proof (cases "c = CHR '' ''")
    case True
    have "list_ex (\<lambda>opt. prefix tag opt) (tl (Split (c # cs) CHR '' ''))
            = list_ex (\<lambda>opt. prefix tag opt) (Split cs CHR '' '')"
      using True by simp
    also have "\<dots> = (prefix tag cs \<or> list_ex (\<lambda>t. prefix (CHR '' '' # tag) t) (suffixes cs))"
      using list_ex_Split[OF assms, of cs] Cons.IH by simp
    also have "\<dots> = list_ex (\<lambda>t. prefix (CHR '' '' # tag) t) (suffixes (c # cs))"
      using True by auto
    finally show ?thesis .
  next
    case False
    then show ?thesis
      using Cons.IH by (simp add: tl_Split_Cons del: Split.simps)
  qed
qed

lemma fieldWithPrefix_Split:
  "CHR '' '' \<notin> set tag \<Longrightarrow>
     list_ex (\<lambda>opt. prefix tag opt) (Split s CHR '' '') = fieldWithPrefix tag s"
  by (simp add: fieldWithPrefix_def list_ex_Split tl_Split_suffixes)

lemma hasSharedOpt_iff: "hasSharedOpt opts = list_ex (\<lambda>opt. prefix ''shared:'' opt) opts"
  by (induction opts) (auto simp: HasPrefix_def)

lemma hasSharedOrMasterOpt_iff:
  "hasSharedOrMasterOpt opts =
     (list_ex (\<lambda>opt. prefix ''shared:'' opt) opts \<or> list_ex (\<lambda>opt. prefix ''master:'' opt) opts)"
  by (induction opts) (auto simp: HasPrefix_def)

lemma ensureShared_eq:
  "ensureShared path lookupMount =
     (case lookupMount path of
        Inl err \<Rightarrow> Some (LookupMountFailed err)
      | Inr mi \<Rightarrow> if sharedMount mi then None
                  else Some (InvalidMountPropagation path (Mountpoint mi) ''shared''))"
  by (simp add: ensureShared_def sharedMount_def hasSharedOpt_iff fieldWithPrefix_Split
      split: sum.splits)

lemma ensureSharedOrSlave_eq:
  "ensureSharedOrSlave path lookupMount =
     (case lookupMount path of
        Inl err \<Rightarrow> Some (LookupMountFailed err)
      | Inr mi \<Rightarrow> if sharedMount mi \<or> slaveMount mi then None
                  else Some (InvalidMountPropagation path (Mountpoint mi) ''shared or slave''))"
  by (simp add: ensureSharedOrSlave_def sharedMount_def slaveMount_def hasSharedOrMasterOpt_iff
      fieldWithPrefix_Split split: sum.splits)

lemma bindMounts_append:
  "bindMounts h lbl (xs @ ys) st =
     (case bindMounts h lbl xs st of Inl e \<Rightarrow> Inl e | Inr st' \<Rightarrow> bindMounts h lbl ys st')"
  by (induction xs arbitrary: st) (auto split: sum.splits)

lemma bindMount_ready:
  assumes "sourceReady h lbl m src"
  shows "bindMount h lbl m (g, ws) =
     (case (case Propagation m of
                 PROPAGATION_PRIVATE \<Rightarrow> Inr ([''rbind'', ''rprivate''], g, ws)
               | PROPAGATION_BIDIRECTIONAL \<Rightarrow>
                   (case ensureShared src (os_LookupMount h) of
                      Some err \<Rightarrow> Inl err
                    | None \<Rightarrow>
                        Inr ([''rbind'', ''rshared''], SetLinuxRootPropagation ''rshared'' g, ws))
               | PROPAGATION_HOST_TO_CONTAINER \<Rightarrow>
                   (case ensureSharedOrSlave src (os_LookupMount h) of
                      Some err \<Rightarrow> Inl err
                    | None \<Rightarrow>
                        Inr ([''rbind'', ''rslave''],
                             (if LinuxRootfsPropagation g \<noteq> ''rshared'' \<and>
                                 LinuxRootfsPropagation g \<noteq> ''rslave''
                              then SetLinuxRootPropagation ''rslave'' g else g), ws))
               | PROPAGATION_OTHER \<Rightarrow>
                   Inr ([''rbind'', ''rprivate''], g,
                        ws @ [unknownPropagationWarning (HostPath m)])) of
           Inl e \<Rightarrow> Inl e
         | Inr (options0, g1, ws1) \<Rightarrow>
             Inr (AddBindMount src (ContainerPath m)
                    (options0 @ [if Readonly m then ''ro'' else ''rw'']) g1, ws1))"
proof -
  let ?R = "if SelinuxRelabel m then label_Relabel h src lbl else RelabelOK"
  have "?R = RelabelOK \<or> ?R = RelabelENOTSUP"
    using assms by (cases "label_Relabel h src lbl") (auto simp: sourceReady_def)
  then have rel: "(case ?R of RelabelOK \<Rightarrow> B | RelabelENOTSUP \<Rightarrow> B | RelabelError err \<Rightarrow> A err) = B"
    for A :: "oserr \<Rightarrow> error + Spec \<times> string list" and B
    by auto
  have pre: "(case os_Stat h (HostPath m) of
                 StatOK \<Rightarrow> None
               | StatError err \<Rightarrow> Some (StatFailed (HostPath m) err)
               | StatNotExist \<Rightarrow>
                   (case os_MkdirAll h (HostPath m) of
                      Some err \<Rightarrow> Some (MkdirFailed (HostPath m) err)
                    | None \<Rightarrow> None)) = None"
    using assms by (auto simp: sourceReady_def)
  have res: "os_ResolveSymbolicLink h (HostPath m) = Inr src"
    using assms by (simp add: sourceReady_def)
  show ?thesis
    unfolding bindMount_def Let_def fst_conv snd_conv pre res
    by (cases "Propagation m"; cases "ensureShared src (os_LookupMount h)";
        cases "ensureSharedOrSlave src (os_LookupMount h)"; simp add: rel)
qed


lemma addOCIBindMounts_split:
  "addOCIBindMounts h spec (pre @ m # post) lbl =
     (case addOCIBindMounts h spec pre lbl of
        Inl e \<Rightarrow> Inl e
      | Inr st \<Rightarrow>
          (case bindMount h lbl m st of
             Inl e \<Rightarrow> Inl e
           | Inr st' \<Rightarrow> bindMounts h lbl post st'))"
  by (simp add: addOCIBindMounts_def bindMounts_append split: sum.splits)


lemma bindMount_success_ready:
  assumes "bindMount h lbl m st = Inr st'"
  shows "sourceReady h lbl m (resolvedSource h m)"
proof -
  obtain g ws where st: "st = (g, ws)" by (cases st)
  have pre: "os_Stat h (HostPath m) = StatOK \<or>
       os_Stat h (HostPath m) = StatNotExist \<and> os_MkdirAll h (HostPath m) = None"
    using assms unfolding bindMount_def Let_def
    by (cases "os_Stat h (HostPath m)"; cases "os_MkdirAll h (HostPath m)") auto
  then have pre': "(case os_Stat h (HostPath m) of
                 StatOK \<Rightarrow> None
               | StatError err \<Rightarrow> Some (StatFailed (HostPath m) err)
               | StatNotExist \<Rightarrow>
                   (case os_MkdirAll h (HostPath m) of
                      Some err \<Rightarrow> Some (MkdirFailed (HostPath m) err)
                    | None \<Rightarrow> None)) = None"
    by auto
  obtain src where res: "os_ResolveSymbolicLink h (HostPath m) = Inr src"
    using assms unfolding bindMount_def Let_def pre'
    by (cases "os_ResolveSymbolicLink h (HostPath m)") auto
  have rs: "resolvedSource h m = src" by (simp add: resolvedSource_def res)
  have rel: "label_Relabel h src lbl \<noteq> RelabelError err" if "SelinuxRelabel m" for err
  proof
    assume e: "label_Relabel h src lbl = RelabelError err"
    show False
      using assms that e unfolding bindMount_def Let_def pre' res st
      by (cases "Propagation m"; cases "ensureShared src (os_LookupMount h)";
          cases "ensureSharedOrSlave src (os_LookupMount h)") auto
  qed
  show ?thesis
    using pre res rel by (auto simp: sourceReady_def rs)
qed

lemma bindMount_success:
  assumes "bindMount h lbl m (g, ws) = Inr (g', ws')"
  shows "propagationAllowed h m
       \<and> g' = g\<lparr>SpecMounts := SpecMounts g @ [boundMount h m],
                 LinuxRootfsPropagation := rootAfter (LinuxRootfsPropagation g) (Propagation m)\<rparr>
       \<and> ws' = ws @ propagationWarnings [m]"
proof -
  note r = bindMount_ready[OF bindMount_success_ready[OF assms], of g ws]
  show ?thesis
  proof (cases "Propagation m")
    case PROPAGATION_PRIVATE
    then show ?thesis
      using assms r
      by (auto simp: propagationAllowed_def boundMount_def rootAfter_def propagationOption_def
          propagationWarnings_def AddBindMount_def)
  next
    case PROPAGATION_HOST_TO_CONTAINER
    then show ?thesis
      using assms r
      by (auto simp: propagationAllowed_def boundMount_def rootAfter_def propagationOption_def
          propagationWarnings_def AddBindMount_def SetLinuxRootPropagation_def
          ensureSharedOrSlave_eq split: sum.splits if_splits)
  next
    case PROPAGATION_BIDIRECTIONAL
    then show ?thesis
      using assms r
      by (auto simp: propagationAllowed_def boundMount_def rootAfter_def propagationOption_def
          propagationWarnings_def AddBindMount_def SetLinuxRootPropagation_def
          ensureShared_eq split: sum.splits if_splits)
  next
    case PROPAGATION_OTHER
    then show ?thesis
      using assms r
      by (auto simp: propagationAllowed_def boundMount_def rootAfter_def propagationOption_def
          propagationWarnings_def AddBindMount_def)
  qed
qed


lemma bindMounts_success:
  "bindMounts h lbl ms (g, ws) = Inr (g', ws') \<Longrightarrow>
     list_all (propagationAllowed h) ms
     \<and> g' = g\<lparr>SpecMounts := SpecMounts g @ map (boundMount h) ms,
               LinuxRootfsPropagation :=
                 foldl rootAfter (LinuxRootfsPropagation g) (map Propagation ms)\<rparr>
     \<and> ws' = ws @ propagationWarnings ms"
proof (induction ms arbitrary: g ws)
  case Nil
  then show ?case by (simp add: propagationWarnings_def)
next
  case (Cons m ms)
  from Cons.prems obtain g1 ws1 where
    one: "bindMount h lbl m (g, ws) = Inr (g1, ws1)"
    and rest: "bindMounts h lbl ms (g1, ws1) = Inr (g', ws')"
    by (cases "bindMount h lbl m (g, ws)") auto
  note a = bindMount_success[OF one]
  note b = Cons.IH[OF rest]
  have w: "propagationWarnings (m # ms) = propagationWarnings [m] @ propagationWarnings ms"
    by (simp add: propagationWarnings_def)
  show ?case
    using a b by (simp add: w)
qed

lemma addOCIBindMounts_snoc:
  "addOCIBindMounts h spec pre lbl = Inr st \<Longrightarrow>
     addOCIBindMounts h spec (pre @ m # post) lbl =
       (case bindMount h lbl m st of Inl e \<Rightarrow> Inl e | Inr st' \<Rightarrow> bindMounts h lbl post st')"
  by (simp add: addOCIBindMounts_split)

text \<open>
  C3. Of \<open>addOCIBindMounts\<close> itself, for every host, specification and list of mounts.
  With no mounts the call succeeds and adds the read-only cgroup mount only. Whenever the
  call succeeds, every mount of the list was allowed its propagation by the mount table
  (bidirectional: the resolved source is a shared mount; host-to-container: a shared or a
  slave mount), the specification has gained, in list order, one bind mount per mount
  with the option \<open>rprivate\<close>, \<open>rshared\<close> or \<open>rslave\<close> of its propagation, the root
  propagation has gone through \<open>rootAfter\<close> once per mount, and one warning was logged
  per mount of unknown propagation. And mount by mount: when the call on the mounts
  before \<open>m\<close> has succeeded and the source of \<open>m\<close> is ready, then for private
  propagation the call up to \<open>m\<close> succeeds with \<open>rprivate\<close> and the root propagation
  untouched; for bidirectional propagation it succeeds with \<open>rshared\<close> and the root
  propagation \<open>rshared\<close> when the source is a shared mount, and the whole call, whatever
  mounts follow, fails with \<open>InvalidMountPropagation\<close> when it is not; for
  host-to-container propagation it succeeds with \<open>rslave\<close>, the root propagation becoming
  \<open>rslave\<close> unless it is \<open>rshared\<close> or \<open>rslave\<close> already, when the source is a shared or
  slave mount, and the whole call fails with \<open>InvalidMountPropagation\<close> when it is
  neither; for any other propagation value it succeeds with \<open>rprivate\<close> and one more
  warning. When the mount table has no entry for the source, the whole call fails with
  the error of the lookup.
\<close>

theorem addOCIBindMounts_propagation:
  "addOCIBindMounts h spec [] lbl =
     Inr (spec\<lparr>SpecMounts := SpecMounts spec @
            [\<lparr>Destination = ''/sys/fs/cgroup'', MountType = ''cgroup'', Source = ''cgroup'',
              Options = [''ro'']\<rparr>]\<rparr>, [])
   \<and> (\<forall>g' ws'. addOCIBindMounts h spec ms lbl = Inr (g', ws') \<longrightarrow>
          list_all (propagationAllowed h) ms
        \<and> g' = spec\<lparr>SpecMounts := SpecMounts spec @
                      \<lparr>Destination = ''/sys/fs/cgroup'', MountType = ''cgroup'',
                       Source = ''cgroup'', Options = [''ro'']\<rparr> # map (boundMount h) ms,
                    LinuxRootfsPropagation :=
                      foldl rootAfter (LinuxRootfsPropagation spec) (map Propagation ms)\<rparr>
        \<and> ws' = propagationWarnings ms)
   \<and> (addOCIBindMounts h spec pre lbl = Inr (g, ws) \<and> sourceReady h lbl m src \<longrightarrow>
        (Propagation m = PROPAGATION_PRIVATE \<longrightarrow>
           addOCIBindMounts h spec (pre @ [m]) lbl =
             Inr (g\<lparr>SpecMounts := SpecMounts g @
                    [\<lparr>Destination = ContainerPath m, MountType = ''bind'', Source = src,
                      Options = [''rbind'', ''rprivate'',
                                 if Readonly m then ''ro'' else ''rw'']\<rparr>]\<rparr>, ws))
      \<and> (Propagation m = PROPAGATION_BIDIRECTIONAL \<longrightarrow>
           (\<forall>mi. os_LookupMount h src = Inr mi \<and> sharedMount mi \<longrightarrow>
              addOCIBindMounts h spec (pre @ [m]) lbl =
                Inr (g\<lparr>SpecMounts := SpecMounts g @
                       [\<lparr>Destination = ContainerPath m, MountType = ''bind'', Source = src,
                         Options = [''rbind'', ''rshared'',
                                    if Readonly m then ''ro'' else ''rw'']\<rparr>],
                      LinuxRootfsPropagation := ''rshared''\<rparr>, ws))
         \<and> (\<forall>mi. os_LookupMount h src = Inr mi \<and> \<not> sharedMount mi \<longrightarrow>
              addOCIBindMounts h spec (pre @ m # post) lbl =
                Inl (InvalidMountPropagation src (Mountpoint mi) ''shared''))
         \<and> (\<forall>err. os_LookupMount h src = Inl err \<longrightarrow>
              addOCIBindMounts h spec (pre @ m # post) lbl = Inl (LookupMountFailed err)))
      \<and> (Propagation m = PROPAGATION_HOST_TO_CONTAINER \<longrightarrow>
           (\<forall>mi. os_LookupMount h src = Inr mi \<and> (sharedMount mi \<or> slaveMount mi) \<longrightarrow>
              addOCIBindMounts h spec (pre @ [m]) lbl =
                Inr (g\<lparr>SpecMounts := SpecMounts g @
                       [\<lparr>Destination = ContainerPath m, MountType = ''bind'', Source = src,
                         Options = [''rbind'', ''rslave'',
                                    if Readonly m then ''ro'' else ''rw'']\<rparr>],
                      LinuxRootfsPropagation :=
                        if LinuxRootfsPropagation g = ''rshared'' \<or>
                           LinuxRootfsPropagation g = ''rslave''
                        then LinuxRootfsPropagation g else ''rslave''\<rparr>, ws))
         \<and> (\<forall>mi. os_LookupMount h src = Inr mi \<and> \<not> sharedMount mi \<and> \<not> slaveMount mi \<longrightarrow>
              addOCIBindMounts h spec (pre @ m # post) lbl =
                Inl (InvalidMountPropagation src (Mountpoint mi) ''shared or slave''))
         \<and> (\<forall>err. os_LookupMount h src = Inl err \<longrightarrow>
              addOCIBindMounts h spec (pre @ m # post) lbl = Inl (LookupMountFailed err)))
      \<and> (Propagation m = PROPAGATION_OTHER \<longrightarrow>
           addOCIBindMounts h spec (pre @ [m]) lbl =
             Inr (g\<lparr>SpecMounts := SpecMounts g @
                    [\<lparr>Destination = ContainerPath m, MountType = ''bind'', Source = src,
                      Options = [''rbind'', ''rprivate'',
                                 if Readonly m then ''ro'' else ''rw'']\<rparr>]\<rparr>,
                  ws @ [unknownPropagationWarning (HostPath m)])))"
proof (intro conjI allI impI)
  show "addOCIBindMounts h spec [] lbl =
     Inr (spec\<lparr>SpecMounts := SpecMounts spec @
            [\<lparr>Destination = ''/sys/fs/cgroup'', MountType = ''cgroup'', Source = ''cgroup'',
              Options = [''ro'']\<rparr>]\<rparr>, [])"
    by (simp add: addOCIBindMounts_def AddCgroupsMount_def)
next
  fix g' ws'
  assume a: "addOCIBindMounts h spec ms lbl = Inr (g', ws')"
  note s = bindMounts_success[OF a[unfolded addOCIBindMounts_def]]
  show "list_all (propagationAllowed h) ms" using s by simp
  show "g' = spec\<lparr>SpecMounts := SpecMounts spec @
                      \<lparr>Destination = ''/sys/fs/cgroup'', MountType = ''cgroup'',
                       Source = ''cgroup'', Options = [''ro'']\<rparr> # map (boundMount h) ms,
                    LinuxRootfsPropagation :=
                      foldl rootAfter (LinuxRootfsPropagation spec) (map Propagation ms)\<rparr>"
    using s by (simp add: AddCgroupsMount_def)
  show "ws' = propagationWarnings ms" using s by simp
next
  assume a: "addOCIBindMounts h spec pre lbl = Inr (g, ws) \<and> sourceReady h lbl m src"
  then have p: "addOCIBindMounts h spec pre lbl = Inr (g, ws)" and r: "sourceReady h lbl m src"
    by simp_all
  note step = addOCIBindMounts_snoc[OF p, of m]
  note body = bindMount_ready[OF r, of g ws]
  {
    assume "Propagation m = PROPAGATION_PRIVATE"
    then show "addOCIBindMounts h spec (pre @ [m]) lbl =
             Inr (g\<lparr>SpecMounts := SpecMounts g @
                    [\<lparr>Destination = ContainerPath m, MountType = ''bind'', Source = src,
                      Options = [''rbind'', ''rprivate'',
                                 if Readonly m then ''ro'' else ''rw'']\<rparr>]\<rparr>, ws)"
      by (simp add: step[of "[]"] body AddBindMount_def)
  }
  {
    fix mi
    assume "Propagation m = PROPAGATION_BIDIRECTIONAL"
      and "os_LookupMount h src = Inr mi \<and> sharedMount mi"
    then show "addOCIBindMounts h spec (pre @ [m]) lbl =
                Inr (g\<lparr>SpecMounts := SpecMounts g @
                       [\<lparr>Destination = ContainerPath m, MountType = ''bind'', Source = src,
                         Options = [''rbind'', ''rshared'',
                                    if Readonly m then ''ro'' else ''rw'']\<rparr>],
                      LinuxRootfsPropagation := ''rshared''\<rparr>, ws)"
      by (simp add: step[of "[]"] body AddBindMount_def ensureShared_eq SetLinuxRootPropagation_def)
  }
  {
    fix mi
    assume "Propagation m = PROPAGATION_BIDIRECTIONAL"
      and "os_LookupMount h src = Inr mi \<and> \<not> sharedMount mi"
    then show "addOCIBindMounts h spec (pre @ m # post) lbl =
                Inl (InvalidMountPropagation src (Mountpoint mi) ''shared'')"
      by (simp add: step[of post] body ensureShared_eq)
  }
  {
    fix err
    assume "Propagation m = PROPAGATION_BIDIRECTIONAL" and "os_LookupMount h src = Inl err"
    then show "addOCIBindMounts h spec (pre @ m # post) lbl = Inl (LookupMountFailed err)"
      by (simp add: step[of post] body ensureShared_eq)
  }
  {
    fix mi
    assume "Propagation m = PROPAGATION_HOST_TO_CONTAINER"
      and "os_LookupMount h src = Inr mi \<and> (sharedMount mi \<or> slaveMount mi)"
    then show "addOCIBindMounts h spec (pre @ [m]) lbl =
                Inr (g\<lparr>SpecMounts := SpecMounts g @
                       [\<lparr>Destination = ContainerPath m, MountType = ''bind'', Source = src,
                         Options = [''rbind'', ''rslave'',
                                    if Readonly m then ''ro'' else ''rw'']\<rparr>],
                      LinuxRootfsPropagation :=
                        if LinuxRootfsPropagation g = ''rshared'' \<or>
                           LinuxRootfsPropagation g = ''rslave''
                        then LinuxRootfsPropagation g else ''rslave''\<rparr>, ws)"
      by (auto simp: step[of "[]"] body AddBindMount_def ensureSharedOrSlave_eq
          SetLinuxRootPropagation_def)
  }
  {
    fix mi
    assume "Propagation m = PROPAGATION_HOST_TO_CONTAINER"
      and "os_LookupMount h src = Inr mi \<and> \<not> sharedMount mi \<and> \<not> slaveMount mi"
    then show "addOCIBindMounts h spec (pre @ m # post) lbl =
                Inl (InvalidMountPropagation src (Mountpoint mi) ''shared or slave'')"
      by (simp add: step[of post] body ensureSharedOrSlave_eq)
  }
  {
    fix err
    assume "Propagation m = PROPAGATION_HOST_TO_CONTAINER" and "os_LookupMount h src = Inl err"
    then show "addOCIBindMounts h spec (pre @ m # post) lbl = Inl (LookupMountFailed err)"
      by (simp add: step[of post] body ensureSharedOrSlave_eq)
  }
  {
    assume "Propagation m = PROPAGATION_OTHER"
    then show "addOCIBindMounts h spec (pre @ [m]) lbl =
             Inr (g\<lparr>SpecMounts := SpecMounts g @
                    [\<lparr>Destination = ContainerPath m, MountType = ''bind'', Source = src,
                      Options = [''rbind'', ''rprivate'',
                                 if Readonly m then ''ro'' else ''rw'']\<rparr>]\<rparr>,
                  ws @ [unknownPropagationWarning (HostPath m)])"
      by (simp add: step[of "[]"] body AddBindMount_def)
  }
qed

theorem addOCIBindMounts_propagation_witness:
  "addOCIBindMounts exampleHost zeroSpec [] [] = Inr (zeroSpec\<lparr>SpecMounts := [\<lparr>Destination = ''/sys/fs/cgroup'', MountType = ''cgroup'', Source = ''cgroup'', Options = [''ro'']\<rparr>]\<rparr>, [])
   \<and> sourceReady exampleHost [] (zeroMount\<lparr>ContainerPath := ''/c1'', HostPath := ''/shared'', Propagation := PROPAGATION_BIDIRECTIONAL\<rparr>) ''/shared''
   \<and> addOCIBindMounts exampleHost zeroSpec [zeroMount\<lparr>ContainerPath := ''/c1'', HostPath := ''/shared'', Propagation := PROPAGATION_BIDIRECTIONAL\<rparr>] [] = Inr (zeroSpec\<lparr>SpecMounts := [\<lparr>Destination = ''/sys/fs/cgroup'', MountType = ''cgroup'', Source = ''cgroup'', Options = [''ro'']\<rparr>, \<lparr>Destination = ''/c1'', MountType = ''bind'', Source = ''/shared'', Options = [''rbind'', ''rshared'', ''rw'']\<rparr>], LinuxRootfsPropagation := ''rshared''\<rparr>, [])
   \<and> sourceReady exampleHost [] (zeroMount\<lparr>ContainerPath := ''/c2'', HostPath := ''/slave'', Readonly := True, Propagation := PROPAGATION_HOST_TO_CONTAINER\<rparr>) ''/slave''
   \<and> addOCIBindMounts exampleHost zeroSpec [zeroMount\<lparr>ContainerPath := ''/c1'', HostPath := ''/shared'', Propagation := PROPAGATION_BIDIRECTIONAL\<rparr>, zeroMount\<lparr>ContainerPath := ''/c2'', HostPath := ''/slave'', Readonly := True, Propagation := PROPAGATION_HOST_TO_CONTAINER\<rparr>] [] = Inr (zeroSpec\<lparr>SpecMounts := [\<lparr>Destination = ''/sys/fs/cgroup'', MountType = ''cgroup'', Source = ''cgroup'', Options = [''ro'']\<rparr>, \<lparr>Destination = ''/c1'', MountType = ''bind'', Source = ''/shared'', Options = [''rbind'', ''rshared'', ''rw'']\<rparr>, \<lparr>Destination = ''/c2'', MountType = ''bind'', Source = ''/slave'', Options = [''rbind'', ''rslave'', ''ro'']\<rparr>], LinuxRootfsPropagation := ''rshared''\<rparr>, [])
   \<and> list_all (propagationAllowed exampleHost) [zeroMount\<lparr>ContainerPath := ''/c1'', HostPath := ''/shared'', Propagation := PROPAGATION_BIDIRECTIONAL\<rparr>, zeroMount\<lparr>ContainerPath := ''/c2'', HostPath := ''/slave'', Readonly := True, Propagation := PROPAGATION_HOST_TO_CONTAINER\<rparr>]
   \<and> sourceReady exampleHost [] (zeroMount\<lparr>ContainerPath := ''/c3'', HostPath := ''/tagged'', Propagation := PROPAGATION_BIDIRECTIONAL\<rparr>) ''/tagged''
   \<and> addOCIBindMounts exampleHost zeroSpec [zeroMount\<lparr>ContainerPath := ''/c1'', HostPath := ''/shared'', Propagation := PROPAGATION_BIDIRECTIONAL\<rparr>, zeroMount\<lparr>ContainerPath := ''/c3'', HostPath := ''/tagged'', Propagation := PROPAGATION_BIDIRECTIONAL\<rparr>, zeroMount\<lparr>ContainerPath := ''/c4'', HostPath := ''/data''\<rparr>] [] = Inl (InvalidMountPropagation ''/tagged'' ''/tagged'' ''shared'')
   \<and> addOCIBindMounts exampleHost zeroSpec [zeroMount\<lparr>ContainerPath := ''/c2'', HostPath := ''/slave'', Readonly := True, Propagation := PROPAGATION_HOST_TO_CONTAINER\<rparr>] [] = Inr (zeroSpec\<lparr>SpecMounts := [\<lparr>Destination = ''/sys/fs/cgroup'', MountType = ''cgroup'', Source = ''cgroup'', Options = [''ro'']\<rparr>, \<lparr>Destination = ''/c2'', MountType = ''bind'', Source = ''/slave'', Options = [''rbind'', ''rslave'', ''ro'']\<rparr>], LinuxRootfsPropagation := ''rslave''\<rparr>, [])
   \<and> sourceReady exampleHost [] (zeroMount\<lparr>ContainerPath := ''/c5'', HostPath := ''/data'', Propagation := PROPAGATION_OTHER\<rparr>) ''/data''
   \<and> addOCIBindMounts exampleHost zeroSpec [zeroMount\<lparr>ContainerPath := ''/c5'', HostPath := ''/data'', Propagation := PROPAGATION_OTHER\<rparr>] [] = Inr (zeroSpec\<lparr>SpecMounts := [\<lparr>Destination = ''/sys/fs/cgroup'', MountType = ''cgroup'', Source = ''cgroup'', Options = [''ro'']\<rparr>, \<lparr>Destination = ''/c5'', MountType = ''bind'', Source = ''/data'', Options = [''rbind'', ''rprivate'', ''rw'']\<rparr>]\<rparr>, [unknownPropagationWarning ''/data''])
   \<and> sourceReady exampleHost [] (zeroMount\<lparr>ContainerPath := ''/c4'', HostPath := ''/data''\<rparr>) ''/data''
   \<and> addOCIBindMounts exampleHost zeroSpec [zeroMount\<lparr>ContainerPath := ''/c4'', HostPath := ''/data''\<rparr>] [] = Inr (zeroSpec\<lparr>SpecMounts := [\<lparr>Destination = ''/sys/fs/cgroup'', MountType = ''cgroup'', Source = ''cgroup'', Options = [''ro'']\<rparr>, \<lparr>Destination = ''/c4'', MountType = ''bind'', Source = ''/data'', Options = [''rbind'', ''rprivate'', ''rw'']\<rparr>]\<rparr>, [])
   \<and> sourceReady exampleHost [] (zeroMount\<lparr>ContainerPath := ''/c6'', HostPath := ''/both'', Propagation := PROPAGATION_HOST_TO_CONTAINER\<rparr>) ''/both''
   \<and> addOCIBindMounts exampleHost zeroSpec [zeroMount\<lparr>ContainerPath := ''/c6'', HostPath := ''/both'', Propagation := PROPAGATION_HOST_TO_CONTAINER\<rparr>] [] = Inr (zeroSpec\<lparr>SpecMounts := [\<lparr>Destination = ''/sys/fs/cgroup'', MountType = ''cgroup'', Source = ''cgroup'', Options = [''ro'']\<rparr>, \<lparr>Destination = ''/c6'', MountType = ''bind'', Source = ''/both'', Options = [''rbind'', ''rslave'', ''rw'']\<rparr>], LinuxRootfsPropagation := ''rslave''\<rparr>, [])"
proof -
  have l1: "os_LookupMount exampleHost ''/shared'' = Inr \<lparr>Mountpoint = ''/shared'', Optional = ''shared:1''\<rparr>"
    and l2: "os_LookupMount exampleHost ''/slave'' = Inr \<lparr>Mountpoint = ''/slave'', Optional = ''master:2''\<rparr>"
    and l3: "os_LookupMount exampleHost ''/tagged'' = Inr \<lparr>Mountpoint = ''/tagged'', Optional = ''unbindable x-shared:1''\<rparr>"
    and l4: "os_LookupMount exampleHost ''/both'' = Inr \<lparr>Mountpoint = ''/both'', Optional = ''shared:3 master:2''\<rparr>"
    by (simp_all add: exampleHost_def)
  have s1: "sharedMount \<lparr>Mountpoint = ''/shared'', Optional = ''shared:1''\<rparr>"
    and s2: "sharedMount \<lparr>Mountpoint = ''/slave'', Optional = ''master:2''\<rparr>
             \<or> slaveMount \<lparr>Mountpoint = ''/slave'', Optional = ''master:2''\<rparr>"
    and s3: "\<not> sharedMount \<lparr>Mountpoint = ''/tagged'', Optional = ''unbindable x-shared:1''\<rparr>"
    and s4: "sharedMount \<lparr>Mountpoint = ''/both'', Optional = ''shared:3 master:2''\<rparr>
             \<or> slaveMount \<lparr>Mountpoint = ''/both'', Optional = ''shared:3 master:2''\<rparr>"
    by (simp_all add: sharedMount_def slaveMount_def fieldWithPrefix_def)
  have r1: "sourceReady exampleHost [] (zeroMount\<lparr>ContainerPath := ''/c1'', HostPath := ''/shared'', Propagation := PROPAGATION_BIDIRECTIONAL\<rparr>) ''/shared''"
    and r2: "sourceReady exampleHost [] (zeroMount\<lparr>ContainerPath := ''/c2'', HostPath := ''/slave'', Readonly := True, Propagation := PROPAGATION_HOST_TO_CONTAINER\<rparr>) ''/slave''"
    and r3: "sourceReady exampleHost [] (zeroMount\<lparr>ContainerPath := ''/c3'', HostPath := ''/tagged'', Propagation := PROPAGATION_BIDIRECTIONAL\<rparr>) ''/tagged''"
    and r4: "sourceReady exampleHost [] (zeroMount\<lparr>ContainerPath := ''/c5'', HostPath := ''/data'', Propagation := PROPAGATION_OTHER\<rparr>) ''/data''"
    and r5: "sourceReady exampleHost [] (zeroMount\<lparr>ContainerPath := ''/c4'', HostPath := ''/data''\<rparr>) ''/data''"
    and r6: "sourceReady exampleHost [] (zeroMount\<lparr>ContainerPath := ''/c6'', HostPath := ''/both'', Propagation := PROPAGATION_HOST_TO_CONTAINER\<rparr>) ''/both''"
    by (simp_all add: sourceReady_def exampleHost_def zeroMount_def)
  have p1: "Propagation (zeroMount\<lparr>ContainerPath := ''/c1'', HostPath := ''/shared'', Propagation := PROPAGATION_BIDIRECTIONAL\<rparr>) = PROPAGATION_BIDIRECTIONAL"
    and p2: "Propagation (zeroMount\<lparr>ContainerPath := ''/c2'', HostPath := ''/slave'', Readonly := True, Propagation := PROPAGATION_HOST_TO_CONTAINER\<rparr>) = PROPAGATION_HOST_TO_CONTAINER"
    and p3: "Propagation (zeroMount\<lparr>ContainerPath := ''/c3'', HostPath := ''/tagged'', Propagation := PROPAGATION_BIDIRECTIONAL\<rparr>) = PROPAGATION_BIDIRECTIONAL"
    and p4: "Propagation (zeroMount\<lparr>ContainerPath := ''/c5'', HostPath := ''/data'', Propagation := PROPAGATION_OTHER\<rparr>) = PROPAGATION_OTHER"
    and p5: "Propagation (zeroMount\<lparr>ContainerPath := ''/c4'', HostPath := ''/data''\<rparr>) = PROPAGATION_PRIVATE"
    and p6: "Propagation (zeroMount\<lparr>ContainerPath := ''/c6'', HostPath := ''/both'', Propagation := PROPAGATION_HOST_TO_CONTAINER\<rparr>) = PROPAGATION_HOST_TO_CONTAINER"
    by (simp_all add: zeroMount_def)
  have z: "SpecMounts zeroSpec = []" "LinuxRootfsPropagation zeroSpec = []"
    by (simp_all add: zeroSpec_def)
  have w0: "addOCIBindMounts exampleHost zeroSpec [] [] = Inr (zeroSpec\<lparr>SpecMounts := [\<lparr>Destination = ''/sys/fs/cgroup'', MountType = ''cgroup'', Source = ''cgroup'', Options = [''ro'']\<rparr>]\<rparr>, [])"
    using addOCIBindMounts_propagation[where h = exampleHost and spec = zeroSpec and lbl = "[]" and pre = "[]" and g = "zeroSpec\<lparr>SpecMounts := [\<lparr>Destination = ''/sys/fs/cgroup'', MountType = ''cgroup'', Source = ''cgroup'', Options = [''ro'']\<rparr>]\<rparr>" and ws = "[]" and m = "zeroMount\<lparr>ContainerPath := ''/c4'', HostPath := ''/data''\<rparr>" and src = "''/data''" and post = "[]" and ms = "[]", THEN conjunct1] by (simp add: z)
  have w1: "addOCIBindMounts exampleHost zeroSpec [zeroMount\<lparr>ContainerPath := ''/c1'', HostPath := ''/shared'', Propagation := PROPAGATION_BIDIRECTIONAL\<rparr>] [] = Inr (zeroSpec\<lparr>SpecMounts := [\<lparr>Destination = ''/sys/fs/cgroup'', MountType = ''cgroup'', Source = ''cgroup'', Options = [''ro'']\<rparr>, \<lparr>Destination = ''/c1'', MountType = ''bind'', Source = ''/shared'', Options = [''rbind'', ''rshared'', ''rw'']\<rparr>], LinuxRootfsPropagation := ''rshared''\<rparr>, [])"
    using addOCIBindMounts_propagation[where h = exampleHost and spec = zeroSpec and lbl = "[]" and pre = "[]" and g = "zeroSpec\<lparr>SpecMounts := [\<lparr>Destination = ''/sys/fs/cgroup'', MountType = ''cgroup'', Source = ''cgroup'', Options = [''ro'']\<rparr>]\<rparr>" and ws = "[]" and m = "zeroMount\<lparr>ContainerPath := ''/c1'', HostPath := ''/shared'', Propagation := PROPAGATION_BIDIRECTIONAL\<rparr>" and src = "''/shared''" and post = "[]" and ms = "[]", THEN conjunct2, THEN conjunct2, THEN mp, OF conjI[OF w0 r1], THEN conjunct2, THEN conjunct1, THEN mp, OF p1, THEN conjunct1, THEN spec, THEN mp, OF conjI[OF l1 s1]] by (simp add: zeroMount_def)
  have w2: "addOCIBindMounts exampleHost zeroSpec [zeroMount\<lparr>ContainerPath := ''/c1'', HostPath := ''/shared'', Propagation := PROPAGATION_BIDIRECTIONAL\<rparr>, zeroMount\<lparr>ContainerPath := ''/c2'', HostPath := ''/slave'', Readonly := True, Propagation := PROPAGATION_HOST_TO_CONTAINER\<rparr>] [] = Inr (zeroSpec\<lparr>SpecMounts := [\<lparr>Destination = ''/sys/fs/cgroup'', MountType = ''cgroup'', Source = ''cgroup'', Options = [''ro'']\<rparr>, \<lparr>Destination = ''/c1'', MountType = ''bind'', Source = ''/shared'', Options = [''rbind'', ''rshared'', ''rw'']\<rparr>, \<lparr>Destination = ''/c2'', MountType = ''bind'', Source = ''/slave'', Options = [''rbind'', ''rslave'', ''ro'']\<rparr>], LinuxRootfsPropagation := ''rshared''\<rparr>, [])"
    using addOCIBindMounts_propagation[where h = exampleHost and spec = zeroSpec and lbl = "[]" and pre = "[zeroMount\<lparr>ContainerPath := ''/c1'', HostPath := ''/shared'', Propagation := PROPAGATION_BIDIRECTIONAL\<rparr>]" and g = "zeroSpec\<lparr>SpecMounts := [\<lparr>Destination = ''/sys/fs/cgroup'', MountType = ''cgroup'', Source = ''cgroup'', Options = [''ro'']\<rparr>, \<lparr>Destination = ''/c1'', MountType = ''bind'', Source = ''/shared'', Options = [''rbind'', ''rshared'', ''rw'']\<rparr>], LinuxRootfsPropagation := ''rshared''\<rparr>" and ws = "[]" and m = "zeroMount\<lparr>ContainerPath := ''/c2'', HostPath := ''/slave'', Readonly := True, Propagation := PROPAGATION_HOST_TO_CONTAINER\<rparr>" and src = "''/slave''" and post = "[]" and ms = "[]", THEN conjunct2, THEN conjunct2, THEN mp, OF conjI[OF w1 r2], THEN conjunct2, THEN conjunct2, THEN conjunct1, THEN mp, OF p2, THEN conjunct1, THEN spec, THEN mp, OF conjI[OF l2 s2]] by (simp add: zeroMount_def)
  have w3: "list_all (propagationAllowed exampleHost) [zeroMount\<lparr>ContainerPath := ''/c1'', HostPath := ''/shared'', Propagation := PROPAGATION_BIDIRECTIONAL\<rparr>, zeroMount\<lparr>ContainerPath := ''/c2'', HostPath := ''/slave'', Readonly := True, Propagation := PROPAGATION_HOST_TO_CONTAINER\<rparr>]"
    using addOCIBindMounts_propagation[where h = exampleHost and spec = zeroSpec and lbl = "[]" and pre = "[]" and g = "zeroSpec\<lparr>SpecMounts := [\<lparr>Destination = ''/sys/fs/cgroup'', MountType = ''cgroup'', Source = ''cgroup'', Options = [''ro'']\<rparr>]\<rparr>" and ws = "[]" and m = "zeroMount\<lparr>ContainerPath := ''/c4'', HostPath := ''/data''\<rparr>" and src = "''/data''" and post = "[]" and ms = "[zeroMount\<lparr>ContainerPath := ''/c1'', HostPath := ''/shared'', Propagation := PROPAGATION_BIDIRECTIONAL\<rparr>, zeroMount\<lparr>ContainerPath := ''/c2'', HostPath := ''/slave'', Readonly := True, Propagation := PROPAGATION_HOST_TO_CONTAINER\<rparr>]", THEN conjunct2, THEN conjunct1, THEN spec, THEN spec, THEN mp, OF w2]
    by (rule conjunct1)
  have w4: "addOCIBindMounts exampleHost zeroSpec [zeroMount\<lparr>ContainerPath := ''/c1'', HostPath := ''/shared'', Propagation := PROPAGATION_BIDIRECTIONAL\<rparr>, zeroMount\<lparr>ContainerPath := ''/c3'', HostPath := ''/tagged'', Propagation := PROPAGATION_BIDIRECTIONAL\<rparr>, zeroMount\<lparr>ContainerPath := ''/c4'', HostPath := ''/data''\<rparr>] [] = Inl (InvalidMountPropagation ''/tagged'' ''/tagged'' ''shared'')"
    using addOCIBindMounts_propagation[where h = exampleHost and spec = zeroSpec and lbl = "[]" and pre = "[zeroMount\<lparr>ContainerPath := ''/c1'', HostPath := ''/shared'', Propagation := PROPAGATION_BIDIRECTIONAL\<rparr>]" and g = "zeroSpec\<lparr>SpecMounts := [\<lparr>Destination = ''/sys/fs/cgroup'', MountType = ''cgroup'', Source = ''cgroup'', Options = [''ro'']\<rparr>, \<lparr>Destination = ''/c1'', MountType = ''bind'', Source = ''/shared'', Options = [''rbind'', ''rshared'', ''rw'']\<rparr>], LinuxRootfsPropagation := ''rshared''\<rparr>" and ws = "[]" and m = "zeroMount\<lparr>ContainerPath := ''/c3'', HostPath := ''/tagged'', Propagation := PROPAGATION_BIDIRECTIONAL\<rparr>" and src = "''/tagged''" and post = "[zeroMount\<lparr>ContainerPath := ''/c4'', HostPath := ''/data''\<rparr>]" and ms = "[]", THEN conjunct2, THEN conjunct2, THEN mp, OF conjI[OF w1 r3], THEN conjunct2, THEN conjunct1, THEN mp, OF p3, THEN conjunct2, THEN conjunct1, THEN spec, THEN mp, OF conjI[OF l3 s3]] by simp
  have w5: "addOCIBindMounts exampleHost zeroSpec [zeroMount\<lparr>ContainerPath := ''/c2'', HostPath := ''/slave'', Readonly := True, Propagation := PROPAGATION_HOST_TO_CONTAINER\<rparr>] [] = Inr (zeroSpec\<lparr>SpecMounts := [\<lparr>Destination = ''/sys/fs/cgroup'', MountType = ''cgroup'', Source = ''cgroup'', Options = [''ro'']\<rparr>, \<lparr>Destination = ''/c2'', MountType = ''bind'', Source = ''/slave'', Options = [''rbind'', ''rslave'', ''ro'']\<rparr>], LinuxRootfsPropagation := ''rslave''\<rparr>, [])"
    using addOCIBindMounts_propagation[where h = exampleHost and spec = zeroSpec and lbl = "[]" and pre = "[]" and g = "zeroSpec\<lparr>SpecMounts := [\<lparr>Destination = ''/sys/fs/cgroup'', MountType = ''cgroup'', Source = ''cgroup'', Options = [''ro'']\<rparr>]\<rparr>" and ws = "[]" and m = "zeroMount\<lparr>ContainerPath := ''/c2'', HostPath := ''/slave'', Readonly := True, Propagation := PROPAGATION_HOST_TO_CONTAINER\<rparr>" and src = "''/slave''" and post = "[]" and ms = "[]", THEN conjunct2, THEN conjunct2, THEN mp, OF conjI[OF w0 r2], THEN conjunct2, THEN conjunct2, THEN conjunct1, THEN mp, OF p2, THEN conjunct1, THEN spec, THEN mp, OF conjI[OF l2 s2]] by (simp add: zeroMount_def z)
  have w6: "addOCIBindMounts exampleHost zeroSpec [zeroMount\<lparr>ContainerPath := ''/c5'', HostPath := ''/data'', Propagation := PROPAGATION_OTHER\<rparr>] [] = Inr (zeroSpec\<lparr>SpecMounts := [\<lparr>Destination = ''/sys/fs/cgroup'', MountType = ''cgroup'', Source = ''cgroup'', Options = [''ro'']\<rparr>, \<lparr>Destination = ''/c5'', MountType = ''bind'', Source = ''/data'', Options = [''rbind'', ''rprivate'', ''rw'']\<rparr>]\<rparr>, [unknownPropagationWarning ''/data''])"
    using addOCIBindMounts_propagation[where h = exampleHost and spec = zeroSpec and lbl = "[]" and pre = "[]" and g = "zeroSpec\<lparr>SpecMounts := [\<lparr>Destination = ''/sys/fs/cgroup'', MountType = ''cgroup'', Source = ''cgroup'', Options = [''ro'']\<rparr>]\<rparr>" and ws = "[]" and m = "zeroMount\<lparr>ContainerPath := ''/c5'', HostPath := ''/data'', Propagation := PROPAGATION_OTHER\<rparr>" and src = "''/data''" and post = "[]" and ms = "[]", THEN conjunct2, THEN conjunct2, THEN mp, OF conjI[OF w0 r4], THEN conjunct2, THEN conjunct2, THEN conjunct2, THEN mp, OF p4] by (simp add: zeroMount_def)
  have w7: "addOCIBindMounts exampleHost zeroSpec [zeroMount\<lparr>ContainerPath := ''/c4'', HostPath := ''/data''\<rparr>] [] = Inr (zeroSpec\<lparr>SpecMounts := [\<lparr>Destination = ''/sys/fs/cgroup'', MountType = ''cgroup'', Source = ''cgroup'', Options = [''ro'']\<rparr>, \<lparr>Destination = ''/c4'', MountType = ''bind'', Source = ''/data'', Options = [''rbind'', ''rprivate'', ''rw'']\<rparr>]\<rparr>, [])"
    using addOCIBindMounts_propagation[where h = exampleHost and spec = zeroSpec and lbl = "[]" and pre = "[]" and g = "zeroSpec\<lparr>SpecMounts := [\<lparr>Destination = ''/sys/fs/cgroup'', MountType = ''cgroup'', Source = ''cgroup'', Options = [''ro'']\<rparr>]\<rparr>" and ws = "[]" and m = "zeroMount\<lparr>ContainerPath := ''/c4'', HostPath := ''/data''\<rparr>" and src = "''/data''" and post = "[]" and ms = "[]", THEN conjunct2, THEN conjunct2, THEN mp, OF conjI[OF w0 r5], THEN conjunct1, THEN mp, OF p5] by (simp add: zeroMount_def)
  have w8: "addOCIBindMounts exampleHost zeroSpec [zeroMount\<lparr>ContainerPath := ''/c6'', HostPath := ''/both'', Propagation := PROPAGATION_HOST_TO_CONTAINER\<rparr>] [] = Inr (zeroSpec\<lparr>SpecMounts := [\<lparr>Destination = ''/sys/fs/cgroup'', MountType = ''cgroup'', Source = ''cgroup'', Options = [''ro'']\<rparr>, \<lparr>Destination = ''/c6'', MountType = ''bind'', Source = ''/both'', Options = [''rbind'', ''rslave'', ''rw'']\<rparr>], LinuxRootfsPropagation := ''rslave''\<rparr>, [])"
    using addOCIBindMounts_propagation[where h = exampleHost and spec = zeroSpec and lbl = "[]" and pre = "[]" and g = "zeroSpec\<lparr>SpecMounts := [\<lparr>Destination = ''/sys/fs/cgroup'', MountType = ''cgroup'', Source = ''cgroup'', Options = [''ro'']\<rparr>]\<rparr>" and ws = "[]" and m = "zeroMount\<lparr>ContainerPath := ''/c6'', HostPath := ''/both'', Propagation := PROPAGATION_HOST_TO_CONTAINER\<rparr>" and src = "''/both''" and post = "[]" and ms = "[]", THEN conjunct2, THEN conjunct2, THEN mp, OF conjI[OF w0 r6], THEN conjunct2, THEN conjunct2, THEN conjunct1, THEN mp, OF p6, THEN conjunct1, THEN spec, THEN mp, OF conjI[OF l4 s4]] by (simp add: zeroMount_def z)
  show ?thesis
    using w0 r1 w1 r2 w2 w3 r3 w4 w5 r4 w6 r5 w7 r6 w8 by blast
qed


section \<open>Properties of the privileged branch\<close>


lemma addImageEnvs_error:
  "addImageEnvs g es = Inl e \<Longrightarrow> \<exists>x. e = InvalidEnvironmentVariable x"
  by (induction es arbitrary: g) (auto simp: Let_def split: if_splits)

lemma setOCIPrivileged_error:
  "setOCIPrivileged h g config = Inl e \<Longrightarrow> \<exists>x. e = FailedToSetDevicesMapping x"
  by (auto simp: setOCIPrivileged_def Let_def split: sum.splits)

text \<open>
  C2. The claim has some privileged configuration rejected by the check of the privileged
  branch with \<open>InvalidPrivilegedConfig\<close>. In the code the check negates the very flag
  that the branch has just found true, so \<open>generateContainerSpec\<close> returns this error for
  no host, configuration, sandbox, image and mounts whatever.
\<close>

theorem generateContainerSpec_never_InvalidPrivilegedConfig:
  "generateContainerSpec h ident config sandboxConfig imageConfig extraMounts
     \<noteq> Inl InvalidPrivilegedConfig"
proof
  assume a: "generateContainerSpec h ident config sandboxConfig imageConfig extraMounts
     = Inl InvalidPrivilegedConfig"
  show False
    using a
    by (auto simp: generateContainerSpec_def defaultRuntimeSpec_def setOCIProcessArgs_def Let_def
        split: sum.splits prod.splits if_splits
        dest: addImageEnvs_error setOCIPrivileged_error)
qed

text \<open>
  A privileged container in a sandbox that is not privileged: the specification is
  generated, with every capability of the host.
\<close>

lemma generateContainerSpec_privileged_example:
  "generateContainerSpec exampleHost ''c1''
      (zeroConfig\<lparr>Command := Some [''/bin/sh''],
                  SecurityContext := zeroSecurityContext\<lparr>Privileged := True\<rparr>\<rparr>)
      \<lparr>SandboxPrivileged = False, CgroupParent = []\<rparr> zeroImageConfig []
   = Inr (zeroSpec\<lparr>ProcessArgs := [''/bin/sh''], RootPath := ''rootfs'',
            ProcessCapabilities := [''CAP_CHOWN'', ''CAP_KILL'', ''CAP_NET_ADMIN''],
            SpecMounts := [\<lparr>Destination = ''/sys/fs/cgroup'', MountType = ''cgroup'',
                             Source = ''cgroup'', Options = []\<rparr>],
            LinuxResourcesDevices := [\<lparr>CgroupAllow = True, CgroupType = [], CgroupMajor = None,
                      CgroupMinor = None, CgroupAccess = ''rwm''\<rparr>]\<rparr>)"
  by (simp add: generateContainerSpec_def defaultRuntimeSpec_def setOCIProcessArgs_def Let_def
      exampleHost_def zeroConfig_def zeroSecurityContext_def zeroImageConfig_def zeroSpec_def
      relativeRootfsPath_def len_def elems_def addOCIBindMounts_def AddCgroupsMount_def
      setOCIPrivileged_def SetupPrivileged_def getOCICapabilitiesList_def ToUpper_def
      toUpperChar_def setOCIBindMountsPrivileged_def clearMountPrivileged_def
      setOCIDevicesPrivileged_def)

section \<open>Properties of the capabilities\<close>


lemma addAllCapabilities_valid:
  "list_all (validate_CapValid h) cs \<Longrightarrow>
     addAllCapabilities h g cs =
       Inr (g\<lparr>ProcessCapabilities := fold List.insert cs (ProcessCapabilities g)\<rparr>)"
  by (induction cs arbitrary: g) (simp_all add: AddProcessCapability_def)

lemma dropAllCapabilities_valid:
  "list_all (validate_CapValid h) cs \<Longrightarrow>
     dropAllCapabilities h g cs =
       Inr (g\<lparr>ProcessCapabilities := fold removeAll cs (ProcessCapabilities g)\<rparr>)"
  by (induction cs arbitrary: g) (simp_all add: DropProcessCapability_def)

lemma addCapabilities_individual:
  "addCapabilities h g cs = addAllCapabilities h g (individualCapabilities cs)"
  by (induction cs arbitrary: g) (auto simp: individualCapabilities_def split: sum.splits)

lemma dropCapabilities_individual:
  "dropCapabilities h g cs = dropAllCapabilities h g (individualCapabilities cs)"
  by (induction cs arbitrary: g) (auto simp: individualCapabilities_def split: sum.splits)

lemma set_fold_insert: "set (fold List.insert cs xs) = set xs \<union> set cs"
  by (induction cs arbitrary: xs) auto

lemma set_fold_removeAll: "set (fold removeAll cs xs) = set xs - set cs"
  by (induction cs arbitrary: xs) auto

lemma InStringSlice_literal: "str \<in> set ss \<Longrightarrow> InStringSlice ss str"
  by (auto simp: InStringSlice_def list_ex_iff)

text \<open>
  C6. For a capability declaration whose names the host accepts, \<open>setOCICapabilities\<close>
  succeeds and changes the capabilities only: \<open>ALL\<close> in the add-list adds every available
  capability, then \<open>ALL\<close> in the drop-list drops every available capability, and only then
  are the individual entries added and dropped, with the prefix \<open>CAP_\<close>. The literal
  \<open>ALL\<close> in a list is recognised. So the add-list \<open>ALL\<close> with the drop-list \<open>CHOWN\<close> leaves
  every capability but \<open>CAP_CHOWN\<close>.
\<close>

theorem setOCICapabilities_all_then_individual:
  assumes "list_all (validate_CapValid h)
             (getOCICapabilitiesList h @ individualCapabilities (AddCapabilities caps)
                @ individualCapabilities (DropCapabilities caps))"
  shows "\<exists>cs. setOCICapabilities h g (Some caps) = Inr (g\<lparr>ProcessCapabilities := cs\<rparr>)
     \<and> set cs =
         (((set (ProcessCapabilities g)
             \<union> (if InStringSlice (AddCapabilities caps) ''ALL''
                then set (getOCICapabilitiesList h) else {}))
            - (if InStringSlice (DropCapabilities caps) ''ALL''
               then set (getOCICapabilitiesList h) else {}))
           \<union> set (individualCapabilities (AddCapabilities caps)))
          - set (individualCapabilities (DropCapabilities caps))
     \<and> (''ALL'' \<in> set (AddCapabilities caps) \<longrightarrow> InStringSlice (AddCapabilities caps) ''ALL'')
     \<and> (''ALL'' \<in> set (DropCapabilities caps) \<longrightarrow> InStringSlice (DropCapabilities caps) ''ALL'')"
proof -
  let ?L = "getOCICapabilitiesList h"
  let ?A = "individualCapabilities (AddCapabilities caps)"
  let ?D = "individualCapabilities (DropCapabilities caps)"
  let ?la = "if InStringSlice (AddCapabilities caps) ''ALL'' then ?L else []"
  let ?ld = "if InStringSlice (DropCapabilities caps) ''ALL'' then ?L else []"
  from assms have vL: "list_all (validate_CapValid h) ?L"
    and vA: "list_all (validate_CapValid h) ?A" and vD: "list_all (validate_CapValid h) ?D"
    by simp_all
  let ?c1 = "fold List.insert ?la (ProcessCapabilities g)"
  let ?c2 = "fold removeAll ?ld ?c1"
  let ?c3 = "fold List.insert ?A ?c2"
  let ?c4 = "fold removeAll ?D ?c3"
  have s1: "(if InStringSlice (AddCapabilities caps) ''ALL''
             then addAllCapabilities h g ?L else Inr g) = Inr (g\<lparr>ProcessCapabilities := ?c1\<rparr>)"
    using vL by (simp add: addAllCapabilities_valid)
  have s2: "(if InStringSlice (DropCapabilities caps) ''ALL''
             then dropAllCapabilities h (g\<lparr>ProcessCapabilities := ?c1\<rparr>) ?L
             else Inr (g\<lparr>ProcessCapabilities := ?c1\<rparr>)) = Inr (g\<lparr>ProcessCapabilities := ?c2\<rparr>)"
    using vL by (simp add: dropAllCapabilities_valid)
  have s3: "addCapabilities h (g\<lparr>ProcessCapabilities := ?c2\<rparr>) (AddCapabilities caps)
              = Inr (g\<lparr>ProcessCapabilities := ?c3\<rparr>)"
    using vA by (simp add: addCapabilities_individual addAllCapabilities_valid)
  have s4: "dropCapabilities h (g\<lparr>ProcessCapabilities := ?c3\<rparr>) (DropCapabilities caps)
              = Inr (g\<lparr>ProcessCapabilities := ?c4\<rparr>)"
    using vD by (simp add: dropCapabilities_individual dropAllCapabilities_valid)
  have run: "setOCICapabilities h g (Some caps) = Inr (g\<lparr>ProcessCapabilities := ?c4\<rparr>)"
    unfolding setOCICapabilities_def option.case s1 sum.case s2 s3 s4 ..
  have st: "set ?c4 =
         (((set (ProcessCapabilities g)
             \<union> (if InStringSlice (AddCapabilities caps) ''ALL'' then set ?L else {}))
            - (if InStringSlice (DropCapabilities caps) ''ALL'' then set ?L else {}))
           \<union> set ?A) - set ?D"
    by (simp add: set_fold_insert set_fold_removeAll)
  show ?thesis
    using run st InStringSlice_literal by blast
qed


theorem setOCICapabilities_all_then_individual_witness:
  "list_all (validate_CapValid exampleHost)
     (getOCICapabilitiesList exampleHost @ individualCapabilities [''ALL'']
        @ individualCapabilities [''CHOWN''])
   \<and> getOCICapabilitiesList exampleHost = [''CAP_CHOWN'', ''CAP_KILL'', ''CAP_NET_ADMIN'']
   \<and> (\<exists>cs. setOCICapabilities exampleHost zeroSpec
               (Some \<lparr>AddCapabilities = [''ALL''], DropCapabilities = [''CHOWN'']\<rparr>)
             = Inr (zeroSpec\<lparr>ProcessCapabilities := cs\<rparr>)
          \<and> set cs = {''CAP_KILL'', ''CAP_NET_ADMIN''})"
proof -
  have L: "getOCICapabilitiesList exampleHost = [''CAP_CHOWN'', ''CAP_KILL'', ''CAP_NET_ADMIN'']"
    by (simp add: getOCICapabilitiesList_def exampleHost_def ToUpper_def toUpperChar_def)
  have i1: "individualCapabilities [''ALL''] = []"
    by (simp add: individualCapabilities_def ToUpper_def toUpperChar_def)
  have i2: "individualCapabilities [''CHOWN''] = [''CAP_CHOWN'']"
    by (simp add: individualCapabilities_def ToUpper_def toUpperChar_def)
  have a1: "InStringSlice [''ALL''] ''ALL''"
    by (simp add: InStringSlice_def)
  have a2: "\<not> InStringSlice [''CHOWN''] ''ALL''"
    by (simp add: InStringSlice_def ToLower_def toLowerChar_def)
  have v: "list_all (validate_CapValid exampleHost)
     (getOCICapabilitiesList exampleHost
        @ individualCapabilities (AddCapabilities \<lparr>AddCapabilities = [''ALL''], DropCapabilities = [''CHOWN'']\<rparr>)
        @ individualCapabilities (DropCapabilities \<lparr>AddCapabilities = [''ALL''], DropCapabilities = [''CHOWN'']\<rparr>))"
    by (simp add: L i1 i2) (simp add: exampleHost_def)
  have z: "ProcessCapabilities zeroSpec = []" by (simp add: zeroSpec_def)
  have e: "({''CAP_CHOWN'', ''CAP_KILL'', ''CAP_NET_ADMIN''} - {''CAP_CHOWN''} :: string set)
             = {''CAP_KILL'', ''CAP_NET_ADMIN''}"
    by auto
  from setOCICapabilities_all_then_individual[OF v, of zeroSpec]
  obtain cs where cs: "setOCICapabilities exampleHost zeroSpec
               (Some \<lparr>AddCapabilities = [''ALL''], DropCapabilities = [''CHOWN'']\<rparr>)
             = Inr (zeroSpec\<lparr>ProcessCapabilities := cs\<rparr>)"
      and s: "set cs = {''CAP_CHOWN'', ''CAP_KILL'', ''CAP_NET_ADMIN''} - {''CAP_CHOWN''}"
    by (auto simp: L i1 i2 a1 a2 z)
  show ?thesis
    using v cs s L e by (auto simp: i1 i2)
qed

section \<open>Properties of the environment\<close>


























end
